theory Spec2Isabelle
  imports Complex_Main
begin

section \<open>Python values used by \<open>nlup/confusion.py\<close>\<close>

text \<open>
  The module is Python 3: \<open>/\<close> is true division, and a division by zero raises
  \<open>ZeroDivisionError\<close> for integers and for floats alike. Every exception the module can
  raise is a constructor of \<open>error\<close>; a computation returns \<open>error + 'a\<close>, with \<open>Inl\<close>
  for the exception.
\<close>

datatype error =
    ZeroDivisionError
  | TypeError
  | ValueError
  | AssertionError
  | NameError
  | OverflowError

definition err_bind :: "error + 'a \<Rightarrow> ('a \<Rightarrow> error + 'b) \<Rightarrow> error + 'b" where
  "err_bind m f = (case m of Inl e \<Rightarrow> Inl e | Inr x \<Rightarrow> f x)"

text \<open>
  A Python float is a finite value, an infinity or NaN. Finite values are real numbers:
  the arithmetic is exact, so rounding and the overflow of a finite result are outside
  the model, and the two zeros are one value.
\<close>

datatype pyfloat = Fin real | PInf | NInf | NaN

definition NAN :: pyfloat where
  "NAN = NaN"

definition INF_const :: pyfloat where
  "INF_const = PInf"

definition float_of_int :: "int \<Rightarrow> pyfloat" where
  "float_of_int n = Fin (of_int n)"

fun fneg :: "pyfloat \<Rightarrow> pyfloat" where
  "fneg (Fin x) = Fin (- x)"
| "fneg PInf = NInf"
| "fneg NInf = PInf"
| "fneg NaN = NaN"

fun fadd :: "pyfloat \<Rightarrow> pyfloat \<Rightarrow> pyfloat" where
  "fadd (Fin x) (Fin y) = Fin (x + y)"
| "fadd (Fin x) PInf = PInf"
| "fadd (Fin x) NInf = NInf"
| "fadd PInf (Fin y) = PInf"
| "fadd PInf PInf = PInf"
| "fadd NInf (Fin y) = NInf"
| "fadd NInf NInf = NInf"
| "fadd PInf NInf = NaN"
| "fadd NInf PInf = NaN"
| "fadd NaN y = NaN"
| "fadd x NaN = NaN"

definition fsub :: "pyfloat \<Rightarrow> pyfloat \<Rightarrow> pyfloat" where
  "fsub x y = fadd x (fneg y)"

text \<open>The sign of an infinite product: \<open>0 * inf\<close> is NaN.\<close>

definition signed_inf :: "real \<Rightarrow> pyfloat" where
  "signed_inf s = (if s = 0 then NaN else if 0 < s then PInf else NInf)"

fun fmul :: "pyfloat \<Rightarrow> pyfloat \<Rightarrow> pyfloat" where
  "fmul (Fin x) (Fin y) = Fin (x * y)"
| "fmul (Fin x) PInf = signed_inf x"
| "fmul (Fin x) NInf = signed_inf (- x)"
| "fmul PInf (Fin y) = signed_inf y"
| "fmul NInf (Fin y) = signed_inf (- y)"
| "fmul PInf PInf = PInf"
| "fmul NInf NInf = PInf"
| "fmul PInf NInf = NInf"
| "fmul NInf PInf = NInf"
| "fmul NaN y = NaN"
| "fmul x NaN = NaN"

text \<open>
  Float division: CPython tests the divisor first, so any dividend (NaN and the
  infinities too) over zero raises \<open>ZeroDivisionError\<close>.
\<close>

fun fdiv :: "pyfloat \<Rightarrow> pyfloat \<Rightarrow> error + pyfloat" where
  "fdiv x (Fin y) =
     (if y = 0 then Inl ZeroDivisionError
      else Inr (case x of
                  Fin a \<Rightarrow> Fin (a / y)
                | PInf \<Rightarrow> signed_inf y
                | NInf \<Rightarrow> signed_inf (- y)
                | NaN \<Rightarrow> NaN))"
| "fdiv (Fin x) PInf = Inr (Fin 0)"
| "fdiv (Fin x) NInf = Inr (Fin 0)"
| "fdiv PInf PInf = Inr NaN"
| "fdiv PInf NInf = Inr NaN"
| "fdiv NInf PInf = Inr NaN"
| "fdiv NInf NInf = Inr NaN"
| "fdiv NaN PInf = Inr NaN"
| "fdiv NaN NInf = Inr NaN"
| "fdiv x NaN = Inr NaN"

text \<open>\<open>x > y\<close> on floats: every comparison with NaN is false.\<close>

fun fgt :: "pyfloat \<Rightarrow> pyfloat \<Rightarrow> bool" where
  "fgt (Fin x) (Fin y) = (y < x)"
| "fgt PInf (Fin y) = True"
| "fgt PInf NInf = True"
| "fgt (Fin x) NInf = True"
| "fgt x y = False"

text \<open>
  \<open>int / int\<close>: true division of two integers gives a float. The quotient is exact
  here; the code rounds it to the nearest double, and raises \<open>OverflowError\<close> when it
  is beyond the range of a float.
\<close>

definition int_truediv :: "int \<Rightarrow> int \<Rightarrow> error + pyfloat" where
  "int_truediv a b = (if b = 0 then Inl ZeroDivisionError else Inr (Fin (of_int a / of_int b)))"

text \<open>\<open>math.sqrt\<close>: a negative argument is a domain error.\<close>

fun py_sqrt :: "pyfloat \<Rightarrow> error + pyfloat" where
  "py_sqrt (Fin x) = (if x < 0 then Inl ValueError else Inr (Fin (sqrt x)))"
| "py_sqrt PInf = Inr PInf"
| "py_sqrt NInf = Inl ValueError"
| "py_sqrt NaN = Inr NaN"

text \<open>
  The builtin \<open>len\<close> calls \<open>__len__\<close> and checks what it returns: a negative value is a
  \<open>ValueError\<close>, one above \<open>sys.maxsize\<close> (64-bit CPython) an \<open>OverflowError\<close>.
\<close>

definition sys_maxsize :: int where
  "sys_maxsize = 2 ^ 63 - 1"

definition py_len :: "int \<Rightarrow> error + int" where
  "py_len n =
     (if n < 0 then Inl ValueError
      else if sys_maxsize < n then Inl OverflowError
      else Inr n)"

text \<open>
  The values \<open>BinaryConfusion.update\<close> coerces with \<open>bool\<close>: \<open>None\<close>, booleans,
  integers, floats and strings, with Python's truth values.
\<close>

datatype pyval = VNone | VBool bool | VInt int | VFloat pyfloat | VStr string

fun py_bool :: "pyval \<Rightarrow> bool" where
  "py_bool VNone = False"
| "py_bool (VBool b) = b"
| "py_bool (VInt n) = (n \<noteq> 0)"
| "py_bool (VFloat (Fin x)) = (x \<noteq> 0)"
| "py_bool (VFloat f) = True"
| "py_bool (VStr s) = (s \<noteq> [])"


section \<open>\<open>ConfusionMixin\<close>\<close>

text \<open>
  \<open>confint\<close> reads only \<open>self.accuracy\<close> and \<open>len(self)\<close>, so the mixin's method takes
  the outcome of each as an argument; both are pure, so reading one twice gives the same
  outcome. The source's order is kept: \<open>p = self.accuracy\<close> comes before the test of
  \<open>len(self)\<close>.
\<close>

definition z_const :: real where
  "z_const = 19599639845400538273879 / 10 ^ 22"

definition confint :: "error + pyfloat \<Rightarrow> error + int \<Rightarrow> error + pyfloat \<times> pyfloat" where
  "confint accuracy len =
     err_bind accuracy (\<lambda>p.
     err_bind len (\<lambda>l.
       if l = 0 then Inr (Fin 0, Fin 1)
       else
     err_bind len (\<lambda>n.
     err_bind accuracy (\<lambda>phat.
       let z = Fin z_const;
           zsq = fmul z z
       in
     err_bind (fdiv zsq (float_of_int n)) (\<lambda>q1.
     err_bind (fdiv (Fin 1) (fadd (Fin 1) q1)) (\<lambda>a1.
     err_bind (fdiv zsq (float_of_int (2 * n))) (\<lambda>q2.
       let a2 = fadd phat q2 in
     err_bind (fdiv (fmul phat (fsub (Fin 1) phat)) (float_of_int n)) (\<lambda>q3.
     err_bind (fdiv zsq (float_of_int (4 * n * n))) (\<lambda>q4.
     err_bind (py_sqrt (fadd q3 q4)) (\<lambda>r.
       let a3 = fmul z r
       in Inr (fmul a1 (fsub a2 a3), fmul a1 (fadd a2 a3))))))))))))"

text \<open>\<open>batch_update\<close>: \<open>zip\<close> stops at the shorter sequence; each pair is one \<open>update\<close>.\<close>

definition batch_update :: "('s \<Rightarrow> 'a \<Rightarrow> 'b \<Rightarrow> 's) \<Rightarrow> 's \<Rightarrow> 'a list \<Rightarrow> 'b list \<Rightarrow> 's" where
  "batch_update update self truths guesses =
     fold (\<lambda>(truth, guess) s. update s truth guess) (zip truths guesses) self"


section \<open>\<open>Accuracy\<close>\<close>

record Accuracy =
  correct :: int
  incorrect :: int

definition Accuracy_init :: "int \<Rightarrow> int \<Rightarrow> Accuracy" where
  "Accuracy_init c i = \<lparr>correct = c, incorrect = i\<rparr>"

definition Accuracy_len :: "Accuracy \<Rightarrow> int" where
  "Accuracy_len self = correct self + incorrect self"

definition Accuracy_update :: "Accuracy \<Rightarrow> 'l \<Rightarrow> 'l \<Rightarrow> Accuracy" where
  "Accuracy_update self truth guess =
     (if truth = guess then self\<lparr>correct := correct self + 1\<rparr>
      else self\<lparr>incorrect := incorrect self + 1\<rparr>)"

definition Accuracy_accuracy :: "Accuracy \<Rightarrow> error + pyfloat" where
  "Accuracy_accuracy self =
     err_bind (py_len (Accuracy_len self)) (\<lambda>n. int_truediv (correct self) n)"

definition Accuracy_confint :: "Accuracy \<Rightarrow> error + pyfloat \<times> pyfloat" where
  "Accuracy_confint self = confint (Accuracy_accuracy self) (py_len (Accuracy_len self))"


section \<open>\<open>BinaryConfusion\<close>\<close>

record 'h BinaryConfusion =
  hit :: 'h
  tp :: int
  fp :: int
  fn :: int
  tn :: int

definition BinaryConfusion_init :: "'h \<Rightarrow> int \<Rightarrow> int \<Rightarrow> int \<Rightarrow> int \<Rightarrow> 'h BinaryConfusion" where
  "BinaryConfusion_init h a b c d = \<lparr>hit = h, tp = a, fp = b, fn = c, tn = d\<rparr>"

definition BinaryConfusion_len :: "'h BinaryConfusion \<Rightarrow> int" where
  "BinaryConfusion_len self = tp self + fp self + fn self + tn self"

definition BinaryConfusion_update :: "'h BinaryConfusion \<Rightarrow> pyval \<Rightarrow> pyval \<Rightarrow> 'h BinaryConfusion" where
  "BinaryConfusion_update self truth0 guess0 =
     (let truth = py_bool truth0;
          guess = py_bool guess0
      in if truth then
           (if guess then self\<lparr>tp := tp self + 1\<rparr>
            else self\<lparr>fn := fn self + 1\<rparr>)
         else if guess then self\<lparr>fp := fp self + 1\<rparr>
         else self\<lparr>tn := tn self + 1\<rparr>)"

text \<open>\<open>try: ... except ZeroDivisionError: return v\<close>; any other exception propagates.\<close>

definition except_ZeroDivisionError :: "error + pyfloat \<Rightarrow> pyfloat \<Rightarrow> error + pyfloat" where
  "except_ZeroDivisionError body v =
     (case body of Inl ZeroDivisionError \<Rightarrow> Inr v | r \<Rightarrow> r)"

definition BinaryConfusion_accuracy :: "'h BinaryConfusion \<Rightarrow> error + pyfloat" where
  "BinaryConfusion_accuracy self =
     except_ZeroDivisionError
       (err_bind (py_len (BinaryConfusion_len self)) (\<lambda>n. int_truediv (tp self + tn self) n))
       NAN"

definition BinaryConfusion_confint :: "'h BinaryConfusion \<Rightarrow> error + pyfloat \<times> pyfloat" where
  "BinaryConfusion_confint self =
     confint (BinaryConfusion_accuracy self) (py_len (BinaryConfusion_len self))"

definition precision :: "'h BinaryConfusion \<Rightarrow> error + pyfloat" where
  "precision self = except_ZeroDivisionError (int_truediv (tp self) (tp self + fp self)) INF_const"

definition recall :: "'h BinaryConfusion \<Rightarrow> error + pyfloat" where
  "recall self = except_ZeroDivisionError (int_truediv (tp self) (tp self + fn self)) INF_const"

definition sensitivity :: "'h BinaryConfusion \<Rightarrow> error + pyfloat" where
  "sensitivity self = recall self"

text \<open>The numerator of \<open>specificity\<close> is \<open>tp\<close>, as the source has it.\<close>

definition specificity :: "'h BinaryConfusion \<Rightarrow> error + pyfloat" where
  "specificity self = except_ZeroDivisionError (int_truediv (tp self) (fp self + tn self)) INF_const"

text \<open>
  \<open>Fscore\<close>: the \<open>assert\<close> fails with \<open>AssertionError\<close> (the interpreter runs without
  \<open>-O\<close>); the final division is outside any \<open>try\<close>.
\<close>

definition Fscore :: "'h BinaryConfusion \<Rightarrow> pyfloat \<Rightarrow> error + pyfloat" where
  "Fscore self ratio =
     (if \<not> fgt ratio (Fin 0) then Inl AssertionError
      else
        let r_square = fmul ratio ratio in
        err_bind (precision self) (\<lambda>P.
        err_bind (recall self) (\<lambda>R.
          fdiv (fmul (fmul (fadd (Fin 1) r_square) P) R) (fadd (fmul r_square P) R))))"

definition F1 :: "'h BinaryConfusion \<Rightarrow> error + pyfloat" where
  "F1 self = Fscore self (Fin 1)"

text \<open>
  \<open>Sscore\<close> names its parameter \<open>ns_ratio\<close>, and its body reads \<open>ratio\<close>: a name that is
  neither a local nor a global of the module, so reading it raises \<open>NameError\<close>.
\<close>

definition global_ratio :: "error + pyfloat" where
  "global_ratio = Inl NameError"

definition Sscore :: "'h BinaryConfusion \<Rightarrow> pyfloat \<Rightarrow> error + pyfloat" where
  "Sscore self ns_ratio =
     err_bind global_ratio (\<lambda>ratio.
       if \<not> fgt ratio (Fin 0) then Inl AssertionError
       else
         err_bind global_ratio (\<lambda>ratio1.
         err_bind global_ratio (\<lambda>ratio2.
           let r_square = fmul ratio1 ratio2 in
           err_bind (specificity self) (\<lambda>Sp.
           err_bind (sensitivity self) (\<lambda>Se.
             fdiv (fmul (fmul (fadd ns_ratio r_square) Sp) Se)
                  (fmul (fmul r_square Sp) Se))))))"

definition S1 :: "'h BinaryConfusion \<Rightarrow> error + pyfloat" where
  "S1 self = Sscore self (Fin 1)"

text \<open>
  \<open>Kappa\<close>: \<open>len(self)\<close> is read four times (the test, \<open>Px\<close>, \<open>Py\<close>, and inside
  \<open>accuracy\<close>); the last division is outside any \<open>try\<close>.
\<close>

definition BinaryConfusion_Kappa :: "'h BinaryConfusion \<Rightarrow> error + pyfloat" where
  "BinaryConfusion_Kappa self =
     err_bind (py_len (BinaryConfusion_len self)) (\<lambda>l.
       if l = 0 then Inr NAN
       else
         err_bind (py_len (BinaryConfusion_len self)) (\<lambda>n1.
         err_bind (int_truediv (tp self + fp self) n1) (\<lambda>Px.
         err_bind (py_len (BinaryConfusion_len self)) (\<lambda>n2.
         err_bind (int_truediv (tp self + fn self) n2) (\<lambda>Py.
           let Pe = fadd (fmul Px Py) (fmul (fsub (Fin 1) Px) (fsub (Fin 1) Py)) in
           err_bind (BinaryConfusion_accuracy self) (\<lambda>acc.
             fdiv (fsub acc Pe) (fsub (Fin 1) Pe)))))))"


section \<open>\<open>Confusion\<close>\<close>

text \<open>
  \<open>self.matrix\<close> is a \<open>defaultdict\<close> whose values are \<open>defaultdict(int)\<close> objects. The
  inner dictionaries are mutable objects that two matrices can share, so they live in a
  store: an inner dictionary is an address (an index of the store), the outer dictionary
  maps a truth label to the address of its row. Both dictionaries keep insertion order
  and have unique keys: they are association lists. \<open>correct\<close> and \<open>incorrect\<close> are
  integers, which are immutable.
\<close>

type_synonym 'l guess_count = "('l \<times> int) list"

type_synonym 'l heap = "'l guess_count list"

record 'l Confusion =
  matrix :: "('l \<times> nat) list"
  correct :: int
  incorrect :: int

definition Confusion_init :: "'l Confusion" where
  "Confusion_init = \<lparr>matrix = [], correct = 0, incorrect = 0\<rparr>"

definition Confusion_len :: "'l Confusion \<Rightarrow> int" where
  "Confusion_len self = correct self + incorrect self"

text \<open>
  \<open>d[guess] += k\<close> on a \<open>defaultdict(int)\<close>: a missing key is first inserted (at the
  end) with value \<open>0\<close>.
\<close>

fun guess_count_iadd :: "'l \<Rightarrow> int \<Rightarrow> 'l guess_count \<Rightarrow> 'l guess_count" where
  "guess_count_iadd guess k [] = [(guess, 0 + k)]"
| "guess_count_iadd guess k ((g, c) # d) =
     (if g = guess then (g, c + k) # d else (g, c) # guess_count_iadd guess k d)"

text \<open>
  \<open>matrix[truth]\<close> on the outer \<open>defaultdict\<close>: a missing row is created, a new empty
  inner dictionary at a fresh address. The result is the row's address, the outer
  dictionary and the store.
\<close>

definition matrix_getitem ::
    "('l \<times> nat) list \<Rightarrow> 'l \<Rightarrow> 'l heap \<Rightarrow> nat \<times> ('l \<times> nat) list \<times> 'l heap" where
  "matrix_getitem m truth h =
     (case map_of m truth of
        Some a \<Rightarrow> (a, m, h)
      | None \<Rightarrow> (length h, m @ [(truth, length h)], h @ [[]]))"

definition Confusion_update ::
    "'l Confusion \<Rightarrow> 'l \<Rightarrow> 'l \<Rightarrow> int \<Rightarrow> 'l heap \<Rightarrow> 'l Confusion \<times> 'l heap" where
  "Confusion_update self truth guess k h =
     (case matrix_getitem (matrix self) truth h of
        (a, m, h1) \<Rightarrow>
          let h2 = h1[a := guess_count_iadd guess k (h1 ! a)];
              self1 = self\<lparr>matrix := m\<rparr>
          in (if truth = guess then self1\<lparr>correct := correct self1 + 1\<rparr>
              else self1\<lparr>incorrect := incorrect self1 + 1\<rparr>,
              h2))"

text \<open>\<open>batch_update\<close> calls \<open>update\<close> with the default weight \<open>k = 1\<close>.\<close>

definition Confusion_batch_update ::
    "'l Confusion \<Rightarrow> 'l list \<Rightarrow> 'l list \<Rightarrow> 'l heap \<Rightarrow> 'l Confusion \<times> 'l heap" where
  "Confusion_batch_update self truths guesses h =
     fold (\<lambda>(truth, guess) (s, h'). Confusion_update s truth guess 1 h')
       (zip truths guesses) (self, h)"

definition Confusion_accuracy :: "'l Confusion \<Rightarrow> error + pyfloat" where
  "Confusion_accuracy self = int_truediv (correct self) (correct self + incorrect self)"

definition Confusion_confint :: "'l Confusion \<Rightarrow> error + pyfloat \<times> pyfloat" where
  "Confusion_confint self = confint (Confusion_accuracy self) (py_len (Confusion_len self))"

text \<open>\<open>sum(guess_count.values())\<close> and \<open>Z\<close>, the sum of these over all rows.\<close>

definition sum_values :: "'l guess_count \<Rightarrow> int" where
  "sum_values d = sum_list (map snd d)"

definition Kappa_Z :: "'l Confusion \<Rightarrow> 'l heap \<Rightarrow> int" where
  "Kappa_Z self h = sum_list (map (\<lambda>(truth, a). sum_values (h ! a)) (matrix self))"

fun Kappa_loop :: "('l \<times> nat) list \<Rightarrow> int \<Rightarrow> 'l heap \<Rightarrow> pyfloat \<Rightarrow> error + pyfloat" where
  "Kappa_loop [] Z h Pe = Inr Pe"
| "Kappa_loop ((truth, a) # items) Z h Pe =
     err_bind (int_truediv (sum_values (h ! a)) Z) (\<lambda>Pe_i.
       Kappa_loop items Z h (fadd Pe (fmul Pe_i Pe_i)))"

definition Confusion_Kappa :: "'l Confusion \<Rightarrow> 'l heap \<Rightarrow> error + pyfloat" where
  "Confusion_Kappa self h =
     (let Z = Kappa_Z self h in
      err_bind (Kappa_loop (matrix self) Z h (Fin 0)) (\<lambda>Pe.
      err_bind (Confusion_accuracy self) (\<lambda>acc.
        fdiv (fsub acc Pe) (fsub (Fin 1) Pe))))"


section \<open>Merging: the three \<open>__add__\<close> methods\<close>

text \<open>
  The right operand of \<open>+\<close> is any accumulator; \<open>type(right) is not C\<close> is a match on
  its kind.
\<close>

datatype ('l, 'h) accumulator =
    AccuracyObj Accuracy
  | BinaryConfusionObj "'h BinaryConfusion"
  | ConfusionObj "'l Confusion"

definition Accuracy_add :: "Accuracy \<Rightarrow> ('l, 'h) accumulator \<Rightarrow> error + Accuracy" where
  "Accuracy_add self right =
     (case right of
        AccuracyObj r \<Rightarrow>
          Inr (Accuracy_init (Accuracy.correct self + Accuracy.correct r)
                             (Accuracy.incorrect self + Accuracy.incorrect r))
      | _ \<Rightarrow> Inl TypeError)"

definition BinaryConfusion_add ::
    "'h BinaryConfusion \<Rightarrow> ('l, 'h) accumulator \<Rightarrow> error + 'h BinaryConfusion" where
  "BinaryConfusion_add self right =
     (case right of
        BinaryConfusionObj r \<Rightarrow>
          if hit self \<noteq> hit r then Inl ValueError
          else Inr (BinaryConfusion_init (hit self)
                      (tp self + tp r) (fp self + fp r) (fn self + fn r) (tn self + tn r))
      | _ \<Rightarrow> Inl TypeError)"

text \<open>
  The inner loop of \<open>Confusion.__add__\<close>: \<open>truth_ptr[guess] += count\<close> for the items of
  \<open>guess_count\<close>. The loop inserts no key into the dictionary it iterates (when
  \<open>truth_ptr\<close> is \<open>guess_count\<close> itself every key is there already) and visits each key
  once, so the items it sees are those the dictionary has when the loop starts.
\<close>

fun add_inner :: "nat \<Rightarrow> 'l guess_count \<Rightarrow> 'l heap \<Rightarrow> 'l heap" where
  "add_inner truth_ptr [] h = h"
| "add_inner truth_ptr ((guess, count) # items) h =
     add_inner truth_ptr items (h[truth_ptr := guess_count_iadd guess count (h ! truth_ptr)])"

text \<open>
  The outer loop, over \<open>right.matrix.items()\<close>; \<open>m\<close> is \<open>retval.matrix\<close>. The row of
  \<open>right\<close> is read from the store when its turn comes.
\<close>

fun add_outer :: "('l \<times> nat) list \<Rightarrow> ('l \<times> nat) list \<Rightarrow> 'l heap \<Rightarrow> ('l \<times> nat) list \<times> 'l heap" where
  "add_outer [] m h = (m, h)"
| "add_outer ((truth, guess_count) # items) m h =
     (case matrix_getitem m truth h of
        (truth_ptr, m1, h1) \<Rightarrow> add_outer items m1 (add_inner truth_ptr (h1 ! guess_count) h1))"

text \<open>
  \<open>self.matrix.copy()\<close> is a shallow copy: a new outer dictionary with the same keys and
  the same inner dictionaries, that is the same association list of addresses.
\<close>

definition Confusion_add ::
    "'l Confusion \<Rightarrow> ('l, 'h) accumulator \<Rightarrow> 'l heap \<Rightarrow> (error + 'l Confusion) \<times> 'l heap" where
  "Confusion_add self right h =
     (case right of
        ConfusionObj r \<Rightarrow>
          (case add_outer (matrix r) (matrix self) h of
             (m, h') \<Rightarrow>
               (Inr \<lparr>matrix = m,
                     correct = correct self + correct r,
                     incorrect = incorrect self + incorrect r\<rparr>, h'))
      | _ \<Rightarrow> (Inl TypeError, h))"

text \<open>\<open>a + b\<close> calls the \<open>__add__\<close> of the left operand's class.\<close>

fun merge ::
    "('l, 'h) accumulator \<Rightarrow> ('l, 'h) accumulator \<Rightarrow> 'l heap \<Rightarrow>
      (error + ('l, 'h) accumulator) \<times> 'l heap" where
  "merge (AccuracyObj a) right h = (map_sum id AccuracyObj (Accuracy_add a right), h)"
| "merge (BinaryConfusionObj a) right h =
     (map_sum id BinaryConfusionObj (BinaryConfusion_add a right), h)"
| "merge (ConfusionObj a) right h =
     (case Confusion_add a right h of (r, h') \<Rightarrow> (map_sum id ConfusionObj r, h'))"

text \<open>
  What a caller can read of a matrix: its table, row by row in insertion order, and one
  cell (\<open>0\<close> for a pair never seen).
\<close>

definition cells :: "'l heap \<Rightarrow> 'l Confusion \<Rightarrow> ('l \<times> 'l guess_count) list" where
  "cells h self = map (\<lambda>(truth, a). (truth, h ! a)) (matrix self)"

definition cell :: "'l heap \<Rightarrow> 'l Confusion \<Rightarrow> 'l \<Rightarrow> 'l \<Rightarrow> int" where
  "cell h self truth guess =
     (case map_of (matrix self) truth of
        None \<Rightarrow> 0
      | Some a \<Rightarrow> (case map_of (h ! a) guess of None \<Rightarrow> 0 | Some c \<Rightarrow> c))"

definition sum_cells :: "'l heap \<Rightarrow> 'l Confusion \<Rightarrow> int" where
  "sum_cells h self = sum_list (map (\<lambda>(truth, a). sum_values (h ! a)) (matrix self))"

text \<open>The kind of an accumulator, what \<open>type(x)\<close> tells.\<close>

datatype kind = Accuracy_kind | BinaryConfusion_kind | Confusion_kind

fun kind_of :: "('l, 'h) accumulator \<Rightarrow> kind" where
  "kind_of (AccuracyObj a) = Accuracy_kind"
| "kind_of (BinaryConfusionObj b) = BinaryConfusion_kind"
| "kind_of (ConfusionObj c) = Confusion_kind"


text \<open>
  A sequence of \<open>update(truth, guess, k)\<close> calls on one matrix, each in the store the
  call before left.
\<close>

fun Confusion_updates ::
    "('l \<times> 'l \<times> int) list \<Rightarrow> 'l Confusion \<Rightarrow> 'l heap \<Rightarrow> 'l Confusion \<times> 'l heap" where
  "Confusion_updates [] self h = (self, h)"
| "Confusion_updates ((truth, guess, k) # calls) self h =
     (case Confusion_update self truth guess k h of
        (self', h') \<Rightarrow> Confusion_updates calls self' h')"

text \<open>
  The shape a matrix has in a store: its keys are unique (it is a dictionary), each row
  is an object of the store, and no two keys name the same row object.
\<close>

definition addrs :: "('l \<times> nat) list \<Rightarrow> nat set" where
  "addrs m = snd ` set m"

definition rows_ok :: "'l heap \<Rightarrow> ('l \<times> nat) list \<Rightarrow> bool" where
  "rows_ok h m \<longleftrightarrow>
     distinct (map fst m) \<and> distinct (map snd m) \<and> (\<forall>a \<in> addrs m. a < length h)"

definition rows_sum :: "'l heap \<Rightarrow> ('l \<times> nat) list \<Rightarrow> int" where
  "rows_sum h m = sum_list (map (\<lambda>(truth, a). sum_values (h ! a)) m)"

definition weight :: "'l \<times> 'l \<times> int \<Rightarrow> int" where
  "weight call = snd (snd call)"

text \<open>
  The matrices a program builds from \<open>Confusion()\<close> by \<open>update\<close> calls and merges
  whose two operands share no row object. \<open>built h c calls\<close>: in the store \<open>h\<close>, the
  matrix \<open>c\<close> is the result of such a construction, and \<open>calls\<close> lists the \<open>update\<close>
  calls that went into it (those of both operands, for a merge). The last rule is for
  what the program does to other objects meanwhile: the store may grow and change, as
  long as no row of \<open>c\<close> is written.
\<close>

inductive built :: "'l heap \<Rightarrow> 'l Confusion \<Rightarrow> ('l \<times> 'l \<times> int) list \<Rightarrow> bool" where
  built_fresh: "built h Confusion_init []"
| built_update:
    "built h c calls \<Longrightarrow> Confusion_update c truth guess k h = (c', h') \<Longrightarrow>
     built h' c' (calls @ [(truth, guess, k)])"
| built_merge:
    "built h a calls_a \<Longrightarrow> built h b calls_b \<Longrightarrow>
     addrs (matrix a) \<inter> addrs (matrix b) = {} \<Longrightarrow>
     Confusion_add a (ConfusionObj b :: ('l, unit) accumulator) h = (Inr r, h') \<Longrightarrow>
     built h' r (calls_a @ calls_b)"
| built_frame:
    "built h c calls \<Longrightarrow> length h \<le> length h' \<Longrightarrow>
     \<forall>x \<in> addrs (matrix c). h' ! x = h ! x \<Longrightarrow>
     built h' c calls"

text \<open>
  Two matrices built apart, each from \<open>Confusion()\<close> by one \<open>update('A', 'A')\<close>: the
  first in the empty store, the second in the store the first left.
\<close>

definition example_a :: "string Confusion" where
  "example_a = \<lparr>matrix = [(''A'', 0)], correct = 1, incorrect = 0\<rparr>"

definition example_b :: "string Confusion" where
  "example_b = \<lparr>matrix = [(''A'', 1)], correct = 1, incorrect = 0\<rparr>"

definition example_heap :: "string heap" where
  "example_heap = [[(''A'', 1)], [(''A'', 1)]]"


section \<open>The confidence interval of an empty accumulator\<close>

lemma confint_accuracy_raises: "confint (Inl e) len = Inl e"
  by (simp add: confint_def err_bind_def)

lemma confint_len_zero: "confint (Inr p) (Inr 0) = Inr (Fin 0, Fin 1)"
  by (simp add: confint_def err_bind_def)

lemma py_len_zero: "py_len 0 = Inr 0"
  by (simp add: py_len_def sys_maxsize_def)

lemma Accuracy_confint_empty:
  "Accuracy_len self = 0 \<Longrightarrow> Accuracy_confint self = Inl ZeroDivisionError"
  by (simp add: Accuracy_confint_def Accuracy_accuracy_def py_len_zero err_bind_def
      int_truediv_def confint_accuracy_raises)

lemma Confusion_confint_empty:
  "Confusion_len self = 0 \<Longrightarrow> Confusion_confint self = Inl ZeroDivisionError"
  by (simp add: Confusion_confint_def Confusion_accuracy_def Confusion_len_def
      int_truediv_def confint_accuracy_raises)

lemma BinaryConfusion_accuracy_empty:
  "BinaryConfusion_len self = 0 \<Longrightarrow> BinaryConfusion_accuracy self = Inr NaN"
  by (simp add: BinaryConfusion_accuracy_def py_len_zero err_bind_def int_truediv_def
      except_ZeroDivisionError_def NAN_def)

lemma BinaryConfusion_confint_empty:
  "BinaryConfusion_len self = 0 \<Longrightarrow> BinaryConfusion_confint self = Inr (Fin 0, Fin 1)"
  by (simp add: BinaryConfusion_confint_def BinaryConfusion_accuracy_empty py_len_zero
      confint_len_zero)

text \<open>
  C1. The claim: every accumulator of length 0 returns \<open>(0, 1)\<close> from \<open>confint\<close> and does
  not fail. On the code, \<open>p = self.accuracy\<close> runs before the test of the length: the
  empty \<open>Accuracy()\<close> and the empty \<open>Confusion()\<close> raise \<open>ZeroDivisionError\<close> there, and only
  the empty \<open>BinaryConfusion()\<close>, whose \<open>accuracy\<close> catches the error, returns \<open>(0, 1)\<close>.
\<close>

theorem confint_empty_accumulators:
  "Accuracy_confint (Accuracy_init 0 0) = Inl ZeroDivisionError \<and>
   Confusion_confint (Confusion_init :: 'l Confusion) = Inl ZeroDivisionError \<and>
   BinaryConfusion_confint (BinaryConfusion_init True 0 0 0 0) = Inr (Fin 0, Fin 1)"
proof -
  have "Accuracy_len (Accuracy_init 0 0) = 0"
    by (simp add: Accuracy_len_def Accuracy_init_def)
  moreover have "Confusion_len (Confusion_init :: 'l Confusion) = 0"
    by (simp add: Confusion_len_def Confusion_init_def)
  moreover have "BinaryConfusion_len (BinaryConfusion_init True 0 0 0 0) = 0"
    by (simp add: BinaryConfusion_len_def BinaryConfusion_init_def)
  ultimately show ?thesis
    by (simp add: Accuracy_confint_empty Confusion_confint_empty BinaryConfusion_confint_empty)
qed


section \<open>The validation of \<open>ratio\<close>\<close>

lemma Fscore_invalid_ratio:
  "\<not> fgt ratio (Fin 0) \<Longrightarrow> Fscore self ratio = Inl AssertionError"
  by (simp add: Fscore_def)

lemma except_ZeroDivisionError_int_truediv:
  "except_ZeroDivisionError (int_truediv a b) v =
     Inr (if b = 0 then v else Fin (of_int a / of_int b))"
  by (simp add: except_ZeroDivisionError_def int_truediv_def)

lemma fdiv_cases: "fdiv x y = Inl ZeroDivisionError \<or> (\<exists>v. fdiv x y = Inr v)"
  by (cases "(x, y)" rule: fdiv.cases) auto

lemma Fscore_valid_ratio:
  assumes "fgt ratio (Fin 0)"
  shows "Fscore self ratio = Inl ZeroDivisionError \<or> (\<exists>v. Fscore self ratio = Inr v)"
  using assms
  by (simp add: Fscore_def precision_def recall_def except_ZeroDivisionError_int_truediv
      err_bind_def Let_def fdiv_cases)

text \<open>
  C2. The claim: \<open>Fscore\<close> and \<open>Sscore\<close> fail with the invalid-argument error when
  \<open>ratio \<le> 0\<close> and pass the validation when \<open>ratio > 0\<close>. \<open>Fscore\<close> does
  (\<open>Fscore_invalid_ratio\<close>, \<open>Fscore_valid_ratio\<close>). \<open>Sscore\<close> does neither: its
  \<open>assert\<close> reads the unbound name \<open>ratio\<close>, so every call raises \<open>NameError\<close>, whatever
  the matrix and the argument.
\<close>

theorem Sscore_always_NameError: "Sscore self ns_ratio = Inl NameError"
  by (simp add: Sscore_def global_ratio_def err_bind_def)


section \<open>\<open>accuracy\<close> with no observation\<close>

text \<open>
  C5. With length 0, \<open>Accuracy.accuracy\<close> and \<open>Confusion.accuracy\<close> raise
  \<open>ZeroDivisionError\<close>; \<open>BinaryConfusion.accuracy\<close> returns NaN.
\<close>

theorem accuracy_empty:
  "(Accuracy_len a = 0 \<longrightarrow> Accuracy_accuracy a = Inl ZeroDivisionError) \<and>
   (Confusion_len c = 0 \<longrightarrow> Confusion_accuracy c = Inl ZeroDivisionError) \<and>
   (BinaryConfusion_len b = 0 \<longrightarrow> BinaryConfusion_accuracy b = Inr NaN)"
  by (simp add: Accuracy_accuracy_def py_len_zero err_bind_def int_truediv_def
      Confusion_accuracy_def Confusion_len_def BinaryConfusion_accuracy_empty)

theorem accuracy_empty_witness:
  "Accuracy_len (Accuracy_init 0 0) = 0 \<and>
   Accuracy_accuracy (Accuracy_init 0 0) = Inl ZeroDivisionError \<and>
   Confusion_len (Confusion_init :: string Confusion) = 0 \<and>
   Confusion_accuracy (Confusion_init :: string Confusion) = Inl ZeroDivisionError \<and>
   BinaryConfusion_len (BinaryConfusion_init True 0 0 0 0) = 0 \<and>
   BinaryConfusion_accuracy (BinaryConfusion_init True 0 0 0 0) = Inr NaN"
proof -
  have 1: "Accuracy_len (Accuracy_init 0 0) = 0"
    by (simp add: Accuracy_len_def Accuracy_init_def)
  have 2: "Confusion_len (Confusion_init :: string Confusion) = 0"
    by (simp add: Confusion_len_def Confusion_init_def)
  have 3: "BinaryConfusion_len (BinaryConfusion_init True 0 0 0 0) = 0"
    by (simp add: BinaryConfusion_len_def BinaryConfusion_init_def)
  show ?thesis
    using 1 2 3
      accuracy_empty [of "Accuracy_init 0 0" "Confusion_init :: string Confusion"
        "BinaryConfusion_init True 0 0 0 0"]
    by simp
qed


section \<open>The errors of a merge\<close>

text \<open>
  C6. A merge of two accumulators of different kinds raises \<open>TypeError\<close>; a merge of two
  binary matrices with different \<open>hit\<close> labels raises \<open>ValueError\<close>; a merge of two
  accumulators of one kind (with equal \<open>hit\<close> labels, for binary matrices) returns an
  accumulator.
\<close>

theorem merge_errors:
  fixes left right :: "('l, 'h) accumulator" and b1 b2 :: "'h BinaryConfusion"
  shows
  "(kind_of left \<noteq> kind_of right \<longrightarrow> fst (merge left right h) = Inl TypeError) \<and>
   (hit b1 \<noteq> hit b2 \<longrightarrow>
      fst (merge (BinaryConfusionObj b1) (BinaryConfusionObj b2) h) = Inl ValueError) \<and>
   (hit b1 = hit b2 \<longrightarrow>
      (\<exists>r. fst (merge (BinaryConfusionObj b1) (BinaryConfusionObj b2) h) = Inr r)) \<and>
   (\<exists>r. fst (merge (AccuracyObj a1 :: ('l, 'h) accumulator) (AccuracyObj a2) h) = Inr r) \<and>
   (\<exists>r. fst (merge (ConfusionObj c1 :: ('l, 'h) accumulator) (ConfusionObj c2) h) = Inr r)"
proof -
  have "kind_of left \<noteq> kind_of right \<Longrightarrow> fst (merge left right h) = Inl TypeError"
    by (cases left; cases right)
      (simp_all add: Accuracy_add_def BinaryConfusion_add_def Confusion_add_def)
  moreover have
    "\<exists>r. fst (merge (ConfusionObj c1 :: ('l, 'h) accumulator) (ConfusionObj c2) h) = Inr r"
    by (simp add: Confusion_add_def split: prod.splits)
  ultimately show ?thesis
    by (simp add: Accuracy_add_def BinaryConfusion_add_def)
qed

theorem merge_errors_witness:
  "kind_of (AccuracyObj (Accuracy_init 1 2) :: (string, bool) accumulator) \<noteq>
     kind_of (ConfusionObj Confusion_init :: (string, bool) accumulator) \<and>
   fst (merge (AccuracyObj (Accuracy_init 1 2)) (ConfusionObj Confusion_init :: (string, bool) accumulator) [])
     = Inl TypeError \<and>
   hit (BinaryConfusion_init True 1 0 0 0) \<noteq> hit (BinaryConfusion_init False 0 0 0 1) \<and>
   fst (merge (BinaryConfusionObj (BinaryConfusion_init True 1 0 0 0))
          (BinaryConfusionObj (BinaryConfusion_init False 0 0 0 1) :: (string, bool) accumulator) [])
     = Inl ValueError \<and>
   hit (BinaryConfusion_init True 1 0 0 0) = hit (BinaryConfusion_init True 0 1 0 1) \<and>
   fst (merge (BinaryConfusionObj (BinaryConfusion_init True 1 0 0 0))
          (BinaryConfusionObj (BinaryConfusion_init True 0 1 0 1) :: (string, bool) accumulator) [])
     = Inr (BinaryConfusionObj (BinaryConfusion_init True 1 1 0 1)) \<and>
   fst (merge (AccuracyObj (Accuracy_init 1 2))
          (AccuracyObj (Accuracy_init 3 4) :: (string, bool) accumulator) [])
     = Inr (AccuracyObj (Accuracy_init 4 6)) \<and>
   fst (merge (ConfusionObj Confusion_init)
          (ConfusionObj Confusion_init :: (string, bool) accumulator) [])
     = Inr (ConfusionObj Confusion_init)"
  using merge_errors [of "AccuracyObj (Accuracy_init 1 2)"
      "ConfusionObj Confusion_init :: (string, bool) accumulator" "[]"
      "BinaryConfusion_init True 1 0 0 0" "BinaryConfusion_init False 0 0 0 1"
      "Accuracy_init 1 2" "Accuracy_init 3 4" Confusion_init Confusion_init]
    merge_errors [of "AccuracyObj (Accuracy_init 1 2)"
      "ConfusionObj Confusion_init :: (string, bool) accumulator" "[]"
      "BinaryConfusion_init True 1 0 0 0" "BinaryConfusion_init True 0 1 0 1"
      "Accuracy_init 1 2" "Accuracy_init 3 4" Confusion_init Confusion_init]
  by (simp add: BinaryConfusion_init_def BinaryConfusion_add_def Accuracy_add_def
      Accuracy_init_def Confusion_add_def Confusion_init_def)


section \<open>\<open>BinaryConfusion.update\<close>\<close>

text \<open>
  C7. \<open>update\<close> coerces \<open>truth\<close> and \<open>guess\<close> to booleans and adds 1 to exactly one cell:
  \<open>tp\<close> for (true, true), \<open>fn\<close> for (true, false), \<open>fp\<close> for (false, true), \<open>tn\<close> for
  (false, false); the other three cells and the \<open>hit\<close> label keep their values.
\<close>

theorem BinaryConfusion_update_one_cell:
  "hit (BinaryConfusion_update self truth guess) = hit self \<and>
   tp (BinaryConfusion_update self truth guess) =
     tp self + (if py_bool truth \<and> py_bool guess then 1 else 0) \<and>
   fn (BinaryConfusion_update self truth guess) =
     fn self + (if py_bool truth \<and> \<not> py_bool guess then 1 else 0) \<and>
   fp (BinaryConfusion_update self truth guess) =
     fp self + (if \<not> py_bool truth \<and> py_bool guess then 1 else 0) \<and>
   tn (BinaryConfusion_update self truth guess) =
     tn self + (if \<not> py_bool truth \<and> \<not> py_bool guess then 1 else 0)"
  by (simp add: BinaryConfusion_update_def Let_def)


section \<open>\<open>Fscore\<close> without a true positive\<close>

text \<open>
  C10. On a matrix with \<open>tp = 0\<close>, \<open>fp > 0\<close> and \<open>fn > 0\<close>, precision and recall are both
  0, and \<open>Fscore\<close> at a valid finite ratio raises \<open>ZeroDivisionError\<close>: its last division
  is \<open>0.0 / 0.0\<close>, outside any \<open>try\<close>.
\<close>

theorem Fscore_ZeroDivisionError:
  assumes "tp self = 0" and "0 < fp self" and "0 < fn self" and "0 < r"
  shows "precision self = Inr (Fin 0) \<and> recall self = Inr (Fin 0) \<and>
         Fscore self (Fin r) = Inl ZeroDivisionError"
  using assms
  by (simp add: Fscore_def precision_def recall_def except_ZeroDivisionError_int_truediv
      err_bind_def Let_def)

theorem Fscore_ZeroDivisionError_witness:
  "0 < BinaryConfusion_len (BinaryConfusion_init True 0 1 1 0) \<and>
   precision (BinaryConfusion_init True 0 1 1 0) = Inr (Fin 0) \<and>
   recall (BinaryConfusion_init True 0 1 1 0) = Inr (Fin 0) \<and>
   Fscore (BinaryConfusion_init True 0 1 1 0) (Fin 1) = Inl ZeroDivisionError \<and>
   F1 (BinaryConfusion_init True 0 1 1 0) = Inl ZeroDivisionError"
  using Fscore_ZeroDivisionError [of "BinaryConfusion_init True 0 1 1 0" 1]
  by (simp add: BinaryConfusion_init_def BinaryConfusion_len_def F1_def)


section \<open>A merge and its operands\<close>

lemmas Confusion_eval =
  Confusion_update_def Confusion_init_def matrix_getitem_def Confusion_add_def
  cells_def cell_def sum_cells_def sum_values_def example_a_def example_b_def example_heap_def

lemma example_reached:
  "Confusion_update Confusion_init ''A'' ''A'' 1 [] = (example_a, [[(''A'', 1)]]) \<and>
   Confusion_update Confusion_init ''A'' ''A'' 1 [[(''A'', 1)]] = (example_b, example_heap)"
  by (simp add: Confusion_eval)

text \<open>
  C3. The claim: a merge returns a new instance that shares no storage with its operands
  and leaves every cell of both operands as it was. \<open>Accuracy.__add__\<close> and
  \<open>BinaryConfusion.__add__\<close> build their result from integers. \<open>Confusion.__add__\<close> copies
  the outer dictionary only: for the two matrices above, \<open>a + b\<close> returns a matrix whose
  row \<open>'A'\<close> is the row object of \<open>a\<close>, and the cell \<open>('A', 'A')\<close> of \<open>a\<close> goes from 1 to 2.
\<close>

theorem Confusion_add_shares_rows:
  "fst (Confusion_add example_a (ConfusionObj example_b :: (string, bool) accumulator) example_heap)
     = Inr \<lparr>matrix = [(''A'', 0)], correct = 2, incorrect = 0\<rparr> \<and>
   matrix example_a = [(''A'', 0)] \<and>
   cells example_heap example_a = [(''A'', [(''A'', 1)])] \<and>
   cells (snd (Confusion_add example_a (ConfusionObj example_b :: (string, bool) accumulator)
                 example_heap)) example_a
     = [(''A'', [(''A'', 2)])]"
  by (simp add: Confusion_eval)


section \<open>Commutativity and associativity of a merge\<close>

lemma Accuracy_add_commute:
  "Accuracy_add a (AccuracyObj b) = Accuracy_add b (AccuracyObj a)"
  by (simp add: Accuracy_add_def Accuracy_init_def add.commute)

lemma Accuracy_add_assoc:
  "err_bind (Accuracy_add a (AccuracyObj b)) (\<lambda>ab. Accuracy_add ab (AccuracyObj c)) =
   err_bind (Accuracy_add b (AccuracyObj c)) (\<lambda>bc. Accuracy_add a (AccuracyObj bc))"
  by (simp add: Accuracy_add_def Accuracy_init_def err_bind_def add.assoc)

lemma BinaryConfusion_add_commute:
  "hit a = hit b \<Longrightarrow>
   BinaryConfusion_add a (BinaryConfusionObj b) = BinaryConfusion_add b (BinaryConfusionObj a)"
  by (simp add: BinaryConfusion_add_def BinaryConfusion_init_def add.commute)

lemma BinaryConfusion_add_assoc:
  "err_bind (BinaryConfusion_add a (BinaryConfusionObj b))
     (\<lambda>ab. BinaryConfusion_add ab (BinaryConfusionObj c)) =
   err_bind (BinaryConfusion_add b (BinaryConfusionObj c))
     (\<lambda>bc. BinaryConfusion_add a (BinaryConfusionObj bc))"
  by (simp add: BinaryConfusion_add_def BinaryConfusion_init_def err_bind_def add.assoc)

text \<open>
  C8. The claim: a merge is commutative and associative on the counts. It is for
  \<open>Accuracy\<close> and \<open>BinaryConfusion\<close> (the four lemmas above). For \<open>Confusion\<close> the merge
  changes its left operand, so the counts depend on what was merged before. With the
  two matrices above, \<open>a + b\<close> has 2 in the cell \<open>('A', 'A')\<close>, and \<open>b + a\<close>, computed
  next, has 3. And from one and the same store, \<open>(a + a) + b\<close> has 3 in that cell and
  \<open>a + (a + b)\<close> has 4.
\<close>

theorem Confusion_add_not_commutative:
  fixes ab ba :: "string Confusion" and h1 h2 :: "string heap"
  defines "ab \<equiv> \<lparr>matrix = [(''A'', 0)], correct = 2, incorrect = 0\<rparr>"
      and "ba \<equiv> \<lparr>matrix = [(''A'', 1)], correct = 2, incorrect = 0\<rparr>"
      and "h1 \<equiv> [[(''A'', 2)], [(''A'', 1)]]"
      and "h2 \<equiv> [[(''A'', 2)], [(''A'', 3)]]"
  shows
  "Confusion_add example_a (ConfusionObj example_b :: (string, bool) accumulator) example_heap
     = (Inr ab, h1) \<and>
   Confusion_add example_b (ConfusionObj example_a :: (string, bool) accumulator) h1
     = (Inr ba, h2) \<and>
   cell h2 ab ''A'' ''A'' = 2 \<and>
   cell h2 ba ''A'' ''A'' = 3 \<and>
   Confusion_add example_a (ConfusionObj example_a :: (string, bool) accumulator) example_heap
     = (Inr ab, h1) \<and>
   Confusion_add ab (ConfusionObj example_b :: (string, bool) accumulator) h1
     = (Inr \<lparr>matrix = [(''A'', 0)], correct = 3, incorrect = 0\<rparr>, [[(''A'', 3)], [(''A'', 1)]]) \<and>
   Confusion_add example_a (ConfusionObj ab :: (string, bool) accumulator) h1
     = (Inr \<lparr>matrix = [(''A'', 0)], correct = 3, incorrect = 0\<rparr>, [[(''A'', 4)], [(''A'', 1)]])"
  by (simp add: Confusion_eval assms)


section \<open>The tally and the cells of a \<open>Confusion\<close> matrix\<close>

lemma sum_values_iadd: "sum_values (guess_count_iadd g k d) = sum_values d + k"
  by (induction d) (auto simp: sum_values_def)

lemma sum_cells_rows_sum: "sum_cells h c = rows_sum h (matrix c)"
  by (simp add: sum_cells_def rows_sum_def)

lemma rows_sum_Nil: "rows_sum h [] = 0"
  by (simp add: rows_sum_def)

lemma rows_sum_append: "rows_sum h (m @ m') = rows_sum h m + rows_sum h m'"
  by (simp add: rows_sum_def)

lemma rows_sum_Cons: "rows_sum h ((t, a) # m) = sum_values (h ! a) + rows_sum h m"
  by (simp add: rows_sum_def)

lemma addrs_Cons: "addrs ((t, a) # m) = insert a (addrs m)"
  by (simp add: addrs_def)

lemma addrs_append: "addrs (m @ m') = addrs m \<union> addrs m'"
  by (auto simp: addrs_def)

lemma rows_sum_same:
  "(\<And>a. a \<in> addrs m \<Longrightarrow> h' ! a = h ! a) \<Longrightarrow> rows_sum h' m = rows_sum h m"
  by (induction m) (auto simp: rows_sum_Nil rows_sum_Cons addrs_Cons)

lemma rows_sum_update_other:
  "a \<notin> addrs m \<Longrightarrow> rows_sum (h[a := d]) m = rows_sum h m"
  by (rule rows_sum_same) (metis nth_list_update_neq)

lemma rows_sum_update_row:
  "a \<in> addrs m \<Longrightarrow> distinct (map snd m) \<Longrightarrow> a < length h \<Longrightarrow>
   rows_sum (h[a := d]) m = rows_sum h m - sum_values (h ! a) + sum_values d"
proof (induction m)
  case Nil
  then show ?case by (simp add: addrs_def)
next
  case (Cons p m)
  obtain t b where p: "p = (t, b)" by (cases p)
  show ?case
  proof (cases "b = a")
    case True
    with Cons.prems p have "a \<notin> addrs m" by (auto simp: addrs_def)
    then have "rows_sum (h[a := d]) m = rows_sum h m" by (rule rows_sum_update_other)
    with True p Cons.prems show ?thesis by (simp add: rows_sum_Cons)
  next
    case False
    with Cons.prems p have "a \<in> addrs m" "distinct (map snd m)" by (auto simp: addrs_Cons)
    with Cons.IH Cons.prems have "rows_sum (h[a := d]) m = rows_sum h m - sum_values (h ! a) + sum_values d"
      by simp
    with False p show ?thesis by (simp add: rows_sum_Cons)
  qed
qed

lemma map_of_addrs: "map_of m t = Some a \<Longrightarrow> a \<in> addrs m"
  by (auto simp: addrs_def dest: map_of_SomeD intro: rev_image_eqI)

lemma map_of_None_fst: "map_of m t = None \<Longrightarrow> t \<notin> fst ` set m"
  by (simp add: map_of_eq_None_iff)

text \<open>One \<open>update\<close>: the row sums grow by the weight, the tally by 1.\<close>

lemma Confusion_update_step:
  assumes ok: "rows_ok h (matrix c)"
    and up: "Confusion_update c t g k h = (c', h')"
  shows "rows_ok h' (matrix c')"
    and "sum_cells h' c' = sum_cells h c + k"
    and "correct c' + incorrect c' = correct c + incorrect c + 1"
    and "length h \<le> length h'"
    and "addrs (matrix c') \<subseteq> addrs (matrix c) \<union> {length h}"
    and "\<forall>i < length h. i \<notin> addrs (matrix c) \<longrightarrow> h' ! i = h ! i"
proof -
  show "correct c' + incorrect c' = correct c + incorrect c + 1"
    using up by (auto simp: Confusion_update_def Let_def split: prod.splits if_splits)
  have all: "rows_ok h' (matrix c') \<and> sum_cells h' c' = sum_cells h c + k \<and> length h \<le> length h' \<and>
      addrs (matrix c') \<subseteq> addrs (matrix c) \<union> {length h} \<and>
      (\<forall>i < length h. i \<notin> addrs (matrix c) \<longrightarrow> h' ! i = h ! i)"
  proof (cases "map_of (matrix c) t")
    case None
    then have m': "matrix c' = matrix c @ [(t, length h)]"
      and h': "h' = (h @ [[]])[length h := guess_count_iadd g k []]"
      using up by (auto simp: Confusion_update_def matrix_getitem_def Let_def split: if_splits)
    have fresh: "length h \<notin> addrs (matrix c)"
      using ok by (auto simp: rows_ok_def)
    have "t \<notin> fst ` set (matrix c)" using None by (rule map_of_None_fst)
    then have 1: "rows_ok h' (matrix c')"
      using ok fresh by (auto simp: rows_ok_def m' h' addrs_def)
    have "rows_sum h' (matrix c) = rows_sum h (matrix c)"
      using ok by (intro rows_sum_same) (auto simp: h' rows_ok_def nth_append)
    then have 2: "sum_cells h' c' = sum_cells h c + k"
      by (simp add: sum_cells_rows_sum m' rows_sum_append rows_sum_Cons rows_sum_Nil h'
          sum_values_def)
    show ?thesis
      using 1 2 by (auto simp: m' h' addrs_append addrs_Cons nth_append addrs_def)
  next
    case (Some a)
    then have m': "matrix c' = matrix c"
      and h': "h' = h[a := guess_count_iadd g k (h ! a)]"
      using up by (auto simp: Confusion_update_def matrix_getitem_def Let_def split: if_splits)
    have a: "a \<in> addrs (matrix c)" using Some by (rule map_of_addrs)
    then have lt: "a < length h" using ok by (auto simp: rows_ok_def)
    have 1: "rows_ok h' (matrix c')"
      using ok by (simp add: rows_ok_def m' h')
    have 2: "sum_cells h' c' = sum_cells h c + k"
      using ok a lt
      by (simp add: sum_cells_rows_sum m' h' rows_sum_update_row rows_ok_def sum_values_iadd)
    show ?thesis
    proof -
      have "\<forall>i < length h. i \<notin> addrs (matrix c) \<longrightarrow> h' ! i = h ! i"
        using a unfolding h' by (metis nth_list_update_neq)
      moreover have "addrs (matrix c') \<subseteq> addrs (matrix c) \<union> {length h}"
        by (auto simp: m')
      moreover have "length h \<le> length h'" by (simp add: h')
      ultimately show ?thesis using 1 2 by blast
    qed
  qed
  then show "rows_ok h' (matrix c')" "sum_cells h' c' = sum_cells h c + k" "length h \<le> length h'"
    "addrs (matrix c') \<subseteq> addrs (matrix c) \<union> {length h}"
    "\<forall>i < length h. i \<notin> addrs (matrix c) \<longrightarrow> h' ! i = h ! i"
    by blast+
qed


lemma Confusion_updates_run:
  assumes "rows_ok h (matrix c)" and "\<forall>a \<in> addrs (matrix c). n \<le> a" and "n \<le> length h"
    and "Confusion_updates calls c h = (c', h')"
  shows "rows_ok h' (matrix c') \<and>
    sum_cells h' c' = sum_cells h c + sum_list (map weight calls) \<and>
    correct c' + incorrect c' = correct c + incorrect c + int (length calls) \<and>
    length h \<le> length h' \<and>
    (\<forall>a \<in> addrs (matrix c'). n \<le> a) \<and>
    (\<forall>i < n. h' ! i = h ! i)"
  using assms
proof (induction calls arbitrary: c h)
  case Nil
  then show ?case by simp
next
  case (Cons call calls)
  obtain t g k where call: "call = (t, g, k)" by (cases call)
  obtain c1 h1 where up: "Confusion_update c t g k h = (c1, h1)"
    by (cases "Confusion_update c t g k h")
  note step = Confusion_update_step [OF Cons.prems(1) up]
  have rest: "Confusion_updates calls c1 h1 = (c', h')"
    using Cons.prems(4) by (simp add: call up)
  have low1: "\<forall>a \<in> addrs (matrix c1). n \<le> a"
    using step(5) Cons.prems(2,3) by auto
  have n1: "n \<le> length h1" using step(4) Cons.prems(3) by simp
  note IH = Cons.IH [OF step(1) low1 n1 rest]
  have frame: "\<forall>i < n. h1 ! i = h ! i"
  proof (intro allI impI)
    fix i assume "i < n"
    then have "i < length h" "i \<notin> addrs (matrix c)"
      using Cons.prems(2,3) by auto
    with step(6) show "h1 ! i = h ! i" by blast
  qed
  show ?case
    using IH step(2,3,4) frame by (simp add: call weight_def)
qed

text \<open>The loops of \<open>Confusion.__add__\<close>, for operands that share no row.\<close>

lemma add_inner_length: "length (add_inner ta items h) = length h"
  by (induction items arbitrary: h) auto

lemma add_inner_other: "i \<noteq> ta \<Longrightarrow> add_inner ta items h ! i = h ! i"
  by (induction items arbitrary: h) auto

lemma add_inner_row:
  "ta < length h \<Longrightarrow>
   sum_values (add_inner ta items h ! ta) = sum_values (h ! ta) + sum_values items"
proof (induction items arbitrary: h)
  case Nil
  then show ?case by (simp add: sum_values_def)
next
  case (Cons p items)
  obtain g n where p: "p = (g, n)" by (cases p)
  from Cons.prems have "ta < length (h[ta := guess_count_iadd g n (h ! ta)])" by simp
  from Cons.IH [OF this] Cons.prems show ?case
    by (simp add: p sum_values_iadd) (simp add: sum_values_def)
qed

lemma add_outer_sum:
  assumes "distinct (map snd m)"
    and "\<forall>a \<in> addrs m. a < length h"
    and "\<forall>a \<in> addrs items. a < length h"
    and "addrs m \<inter> addrs items = {}"
    and "add_outer items m h = (m', h')"
  shows "rows_sum h' m' = rows_sum h m + rows_sum h items \<and>
         distinct (map snd m') \<and> (\<forall>a \<in> addrs m'. a < length h') \<and> length h \<le> length h' \<and>
         (\<forall>i < length h. i \<notin> addrs m \<longrightarrow> h' ! i = h ! i)"
  using assms
proof (induction items arbitrary: m h)
  case Nil
  then show ?case by (simp add: rows_sum_Nil)
next
  case (Cons p items)
  obtain t ga where p: "p = (t, ga)" by (cases p)
  have ga: "ga < length h" "ga \<notin> addrs m"
    using Cons.prems(3,4) by (auto simp: p addrs_Cons)
  have items: "\<forall>a \<in> addrs items. a < length h" "addrs m \<inter> addrs items = {}"
    using Cons.prems(3,4) by (auto simp: p addrs_Cons)
  show ?case
  proof (cases "map_of m t")
    case (Some ta)
    let ?h2 = "add_inner ta (h ! ga) h"
    have ta: "ta \<in> addrs m" using Some by (rule map_of_addrs)
    then have ta_lt: "ta < length h" and ta_items: "ta \<notin> addrs items" and ta_ga: "ta \<noteq> ga"
      using Cons.prems(2) items(2) ga(2) by auto
    have rest: "add_outer items m ?h2 = (m', h')"
      using Cons.prems(5) by (simp add: p matrix_getitem_def Some)
    have IH: "rows_sum h' m' = rows_sum ?h2 m + rows_sum ?h2 items \<and>
         distinct (map snd m') \<and> (\<forall>a \<in> addrs m'. a < length h') \<and> length ?h2 \<le> length h' \<and>
         (\<forall>i < length ?h2. i \<notin> addrs m \<longrightarrow> h' ! i = ?h2 ! i)"
      using Cons.prems(1,2) items
      by (intro Cons.IH [OF _ _ _ _ rest]) (simp_all add: add_inner_length)
    have "rows_sum ?h2 items = rows_sum h items"
      using ta_items by (intro rows_sum_same) (metis add_inner_other)
    moreover have "rows_sum ?h2 m = rows_sum h m + sum_values (h ! ga)"
    proof -
      have "?h2 = h[ta := ?h2 ! ta]"
      proof (rule nth_equalityI)
        show "length ?h2 = length (h[ta := ?h2 ! ta])"
          by (simp add: add_inner_length)
        fix i assume "i < length ?h2"
        then show "?h2 ! i = h[ta := ?h2 ! ta] ! i"
          by (cases "i = ta") (simp_all add: add_inner_length add_inner_other)
      qed
      then have "rows_sum ?h2 m = rows_sum (h[ta := ?h2 ! ta]) m" by simp
      also have "\<dots> = rows_sum h m - sum_values (h ! ta) + sum_values (?h2 ! ta)"
        using ta Cons.prems(1) ta_lt by (rule rows_sum_update_row)
      finally show ?thesis using ta_lt by (simp add: add_inner_row)
    qed
    moreover have "\<forall>i < length h. i \<notin> addrs m \<longrightarrow> h' ! i = h ! i"
      using IH ta by (metis add_inner_length add_inner_other)
    ultimately show ?thesis
      using IH ga(1) by (simp add: p rows_sum_Cons add_inner_length)
  next
    case None
    let ?m1 = "m @ [(t, length h)]"
    let ?h1 = "h @ [[]]"
    let ?h2 = "add_inner (length h) (?h1 ! ga) ?h1"
    have rest: "add_outer items ?m1 ?h2 = (m', h')"
      using Cons.prems(5) by (simp add: p matrix_getitem_def None)
    have fresh: "length h \<notin> addrs m" "length h \<notin> addrs items"
      using Cons.prems(2) items(1) by auto
    have IH: "rows_sum h' m' = rows_sum ?h2 ?m1 + rows_sum ?h2 items \<and>
         distinct (map snd m') \<and> (\<forall>a \<in> addrs m'. a < length h') \<and> length ?h2 \<le> length h' \<and>
         (\<forall>i < length ?h2. i \<notin> addrs ?m1 \<longrightarrow> h' ! i = ?h2 ! i)"
    proof (intro Cons.IH [OF _ _ _ _ rest])
      show "distinct (map snd ?m1)"
        using Cons.prems(1) fresh(1) by (simp add: addrs_def)
      show "\<forall>a \<in> addrs ?m1. a < length ?h2"
        using Cons.prems(2) by (auto simp: add_inner_length addrs_append addrs_Cons addrs_def)
      show "\<forall>a \<in> addrs items. a < length ?h2"
        using items(1) by (auto simp: add_inner_length)
      show "addrs ?m1 \<inter> addrs items = {}"
        using items(2) fresh(2) by (auto simp: addrs_append addrs_Cons addrs_def)
    qed
    have same: "\<And>i. i < length h \<Longrightarrow> ?h2 ! i = h ! i"
      by (simp add: add_inner_other nth_append)
    have "rows_sum ?h2 items = rows_sum h items"
      using items(1) by (intro rows_sum_same) (simp add: same)
    moreover have "rows_sum ?h2 m = rows_sum h m"
      using Cons.prems(2) by (intro rows_sum_same) (simp add: same)
    moreover have "sum_values (?h2 ! length h) = sum_values (h ! ga)"
      using ga(1) by (simp add: add_inner_row nth_append) (simp add: sum_values_def)
    moreover have "\<forall>i < length h. i \<notin> addrs m \<longrightarrow> h' ! i = h ! i"
    proof (intro allI impI)
      fix i assume i: "i < length h" "i \<notin> addrs m"
      then have "i < length ?h2" "i \<notin> addrs ?m1"
        by (auto simp: add_inner_length addrs_append addrs_Cons addrs_def)
      with IH have "h' ! i = ?h2 ! i" by blast
      with i(1) show "h' ! i = h ! i" by (simp add: same)
    qed
    ultimately show ?thesis
      using IH by (simp add: p rows_sum_Cons rows_sum_append rows_sum_Nil add_inner_length)
  qed
qed


text \<open>
  The right operand of a merge keeps its table when it shares no row with the left one.
\<close>

lemma Confusion_add_right_operand:
  assumes a: "rows_ok h (matrix a)" and b: "rows_ok h (matrix b)"
    and apart: "addrs (matrix a) \<inter> addrs (matrix b) = {}"
    and add: "Confusion_add a (ConfusionObj b) h = (r, h')"
  shows "cells h' b = cells h b"
proof -
  obtain m where outer: "add_outer (matrix b) (matrix a) h = (m, h')"
    using add by (auto simp: Confusion_add_def split: prod.splits)
  have "rows_sum h' m = rows_sum h (matrix a) + rows_sum h (matrix b) \<and>
         distinct (map snd m) \<and> (\<forall>x \<in> addrs m. x < length h') \<and> length h \<le> length h' \<and>
         (\<forall>i < length h. i \<notin> addrs (matrix a) \<longrightarrow> h' ! i = h ! i)"
    using a b apart by (intro add_outer_sum [OF _ _ _ _ outer]) (simp_all add: rows_ok_def)
  then have frame: "\<forall>i < length h. i \<notin> addrs (matrix a) \<longrightarrow> h' ! i = h ! i"
    by blast
  have "h' ! x = h ! x" if "x \<in> addrs (matrix b)" for x
  proof -
    from that b have "x < length h" by (simp add: rows_ok_def)
    moreover from that apart have "x \<notin> addrs (matrix a)" by blast
    ultimately show ?thesis using frame by blast
  qed
  then have "\<forall>p \<in> set (matrix b). h' ! snd p = h ! snd p"
    by (simp add: addrs_def)
  then show ?thesis
    by (simp add: cells_def case_prod_unfold)
qed

lemma rows_ok_init: "rows_ok h (matrix Confusion_init)"
  by (simp add: rows_ok_def Confusion_init_def addrs_def)

lemma sum_list_weights_one:
  "\<forall>call \<in> set calls. weight call = 1 \<Longrightarrow> sum_list (map weight calls) = int (length calls)"
  by (induction calls) auto

lemma add_outer_keys:
  "distinct (map fst m) \<Longrightarrow> add_outer items m h = (m', h') \<Longrightarrow> distinct (map fst m')"
proof (induction items arbitrary: m h)
  case Nil
  then show ?case by simp
next
  case (Cons p items)
  obtain t ga where p: "p = (t, ga)" by (cases p)
  show ?case
  proof (cases "map_of m t")
    case (Some ta)
    with Cons.prems(2) have "add_outer items m (add_inner ta (h ! ga) h) = (m', h')"
      by (simp add: p matrix_getitem_def)
    with Cons.IH Cons.prems(1) show ?thesis by blast
  next
    case None
    then have "t \<notin> fst ` set m" by (rule map_of_None_fst)
    with Cons.prems(1) have d: "distinct (map fst (m @ [(t, length h)]))" by simp
    from None Cons.prems(2)
    have "add_outer items (m @ [(t, length h)])
            (add_inner (length h) ((h @ [[]]) ! ga) (h @ [[]])) = (m', h')"
      by (simp add: p matrix_getitem_def)
    with Cons.IH d show ?thesis by blast
  qed
qed

lemma built_invariant:
  assumes "built h c calls"
  shows "rows_ok h (matrix c) \<and>
         correct c + incorrect c = int (length calls) \<and>
         sum_cells h c = sum_list (map weight calls)"
  using assms
proof (induction rule: built.induct)
  case (built_fresh h)
  have "rows_ok h (matrix (Confusion_init :: 'a Confusion))" by (rule rows_ok_init)
  moreover have "correct (Confusion_init :: 'a Confusion) + incorrect (Confusion_init :: 'a Confusion) = 0"
    "sum_cells h (Confusion_init :: 'a Confusion) = 0"
    by (simp_all add: Confusion_init_def sum_cells_def)
  ultimately show ?case by simp
next
  case (built_update h c calls truth guess k c' h')
  have ok: "rows_ok h (matrix c)"
    and tally: "correct c + incorrect c = int (length calls)"
    and cells: "sum_cells h c = sum_list (map weight calls)"
    using built_update.IH by blast+
  note step = Confusion_update_step [OF ok built_update.hyps(2)]
  have "correct c' + incorrect c' = int (length (calls @ [(truth, guess, k)]))"
    using step(3) tally by simp
  moreover have "sum_cells h' c' = sum_list (map weight (calls @ [(truth, guess, k)]))"
    using step(2) cells by (simp add: weight_def)
  ultimately show ?case using step(1) by blast
next
  case (built_merge h a calls_a b calls_b r h')
  have a: "rows_ok h (matrix a)"
    and a_tally: "correct a + incorrect a = int (length calls_a)"
    and a_cells: "sum_cells h a = sum_list (map weight calls_a)"
    using built_merge.IH(1) by blast+
  have b: "rows_ok h (matrix b)"
    and b_tally: "correct b + incorrect b = int (length calls_b)"
    and b_cells: "sum_cells h b = sum_list (map weight calls_b)"
    using built_merge.IH(2) by blast+
  obtain m where outer: "add_outer (matrix b) (matrix a) h = (m, h')"
    and r: "r = \<lparr>matrix = m, correct = correct a + correct b,
                incorrect = incorrect a + incorrect b\<rparr>"
    using built_merge.hyps(4) by (auto simp: Confusion_add_def split: prod.splits)
  have a1: "distinct (map snd (matrix a))" and a2: "\<forall>x \<in> addrs (matrix a). x < length h"
    and a3: "distinct (map fst (matrix a))"
    using a by (simp_all add: rows_ok_def)
  have b2: "\<forall>x \<in> addrs (matrix b). x < length h"
    using b by (simp add: rows_ok_def)
  note sums = add_outer_sum [OF a1 a2 b2 built_merge.hyps(3) outer]
  have keys: "distinct (map fst m)"
    using a3 outer by (rule add_outer_keys)
  have "rows_ok h' (matrix r)"
    using sums keys by (simp add: rows_ok_def r)
  moreover have "correct r + incorrect r = int (length (calls_a @ calls_b))"
    using a_tally b_tally by (simp add: r)
  moreover have "sum_cells h' r = sum_list (map weight (calls_a @ calls_b))"
    using a_cells b_cells sums by (simp add: sum_cells_rows_sum r)
  ultimately show ?case by blast
next
  case (built_frame h c calls h')
  have ok: "rows_ok h (matrix c)"
    and tally: "correct c + incorrect c = int (length calls)"
    and cells: "sum_cells h c = sum_list (map weight calls)"
    using built_frame.IH by blast+
  have "\<forall>x \<in> addrs (matrix c). x < length h'"
    using ok built_frame.hyps(2) by (fastforce simp: rows_ok_def)
  then have "rows_ok h' (matrix c)"
    using ok by (simp add: rows_ok_def)
  moreover have "rows_sum h' (matrix c) = rows_sum h (matrix c)"
    using built_frame.hyps(3) by (intro rows_sum_same) simp
  ultimately show ?case
    using tally cells by (simp add: sum_cells_rows_sum)
qed

text \<open>
  What the program runs are constructions: a sequence of \<open>update\<close> calls on a built
  matrix, and a second matrix built from \<open>Confusion()\<close> next to a first one.
\<close>

lemma built_updates:
  "built h c calls \<Longrightarrow> Confusion_updates rest c h = (c', h') \<Longrightarrow> built h' c' (calls @ rest)"
proof (induction rest arbitrary: c h calls)
  case Nil
  then show ?case by simp
next
  case (Cons call rest)
  obtain t g k where call: "call = (t, g, k)" by (cases call)
  obtain c1 h1 where up: "Confusion_update c t g k h = (c1, h1)"
    by (cases "Confusion_update c t g k h")
  have "built h1 c1 (calls @ [(t, g, k)])"
    using Cons.prems(1) up by (rule built_update)
  moreover have "Confusion_updates rest c1 h1 = (c', h')"
    using Cons.prems(2) by (simp add: call up)
  ultimately have "built h' c' ((calls @ [(t, g, k)]) @ rest)"
    by (rule Cons.IH)
  then show ?case by (simp add: call)
qed

lemma built_apart:
  assumes a: "built h1 a calls_a"
    and run: "Confusion_updates calls_b Confusion_init h1 = (b, h2)"
  shows "built h2 a calls_a \<and> built h2 b calls_b \<and> addrs (matrix a) \<inter> addrs (matrix b) = {}"
proof -
  have init: "\<forall>x \<in> addrs (matrix (Confusion_init :: 'a Confusion)). n \<le> x" for n
    by (simp add: Confusion_init_def addrs_def)
  note B = Confusion_updates_run [OF rows_ok_init init order_refl run]
  have a_lt: "\<forall>x \<in> addrs (matrix a). x < length h1"
    using built_invariant [OF a] by (simp add: rows_ok_def)
  have len: "length h1 \<le> length h2" and same: "\<forall>i < length h1. h2 ! i = h1 ! i"
    and b_ge: "\<forall>x \<in> addrs (matrix b). length h1 \<le> x"
    using B by blast+
  have "\<forall>x \<in> addrs (matrix a). h2 ! x = h1 ! x"
    using a_lt same by blast
  with a len have "built h2 a calls_a"
    by (rule built_frame)
  moreover have "built h2 b ([] @ calls_b)"
    using built_fresh run by (rule built_updates)
  moreover have "addrs (matrix a) \<inter> addrs (matrix b) = {}"
  proof (rule ccontr)
    assume "addrs (matrix a) \<inter> addrs (matrix b) \<noteq> {}"
    then obtain x where "x \<in> addrs (matrix a)" "x \<in> addrs (matrix b)" by blast
    with a_lt b_ge have "x < length h1" "length h1 \<le> x" by blast+
    then show False by simp
  qed
  ultimately show ?thesis by simp
qed

text \<open>
  C4, as the claim states it: \<open>correct + incorrect\<close> equals the sum of all cells for
  every matrix reached by updates and merges. One \<open>update('A', 'A', 2)\<close> on a fresh
  matrix gives a tally of 1 and a cell sum of 2. With weights of 1 only, and the two
  matrices \<open>a\<close> and \<open>b\<close> above: after \<open>a + b\<close> the operand \<open>a\<close>, whose row the merge has
  written, has a tally of 1 and a cell sum of 2; and \<open>(a + b) + a\<close>, a merge of two
  matrices that share a row, has a tally of 3 and a cell sum of 4.
\<close>

theorem Confusion_tally_differs_from_cells:
  "correct (fst (Confusion_update (Confusion_init :: string Confusion) ''A'' ''A'' 2 [])) +
     incorrect (fst (Confusion_update (Confusion_init :: string Confusion) ''A'' ''A'' 2 [])) = 1 \<and>
   sum_cells (snd (Confusion_update (Confusion_init :: string Confusion) ''A'' ''A'' 2 []))
     (fst (Confusion_update (Confusion_init :: string Confusion) ''A'' ''A'' 2 [])) = 2 \<and>
   correct example_a + incorrect example_a = 1 \<and>
   sum_cells (snd (Confusion_add example_a (ConfusionObj example_b :: (string, bool) accumulator)
                     example_heap)) example_a = 2 \<and>
   Confusion_add example_a (ConfusionObj example_b :: (string, bool) accumulator) example_heap
     = (Inr \<lparr>matrix = [(''A'', 0)], correct = 2, incorrect = 0\<rparr>, [[(''A'', 2)], [(''A'', 1)]]) \<and>
   Confusion_add \<lparr>matrix = [(''A'', 0)], correct = 2, incorrect = 0\<rparr>
       (ConfusionObj example_a :: (string, bool) accumulator) [[(''A'', 2)], [(''A'', 1)]]
     = (Inr \<lparr>matrix = [(''A'', 0)], correct = 3, incorrect = 0\<rparr>, [[(''A'', 4)], [(''A'', 1)]]) \<and>
   sum_cells [[(''A'', 4)], [(''A'', 1)]] \<lparr>matrix = [(''A'', 0)], correct = 3, incorrect = 0\<rparr> = 4"
  by (simp add: Confusion_eval)

text \<open>
  C4, amended. Take any matrix built from \<open>Confusion()\<close> objects by \<open>update\<close> calls, with
  any weights, and by merges whose two operands share no row object, in any order and
  to any depth, and whose rows nothing else has written since (\<open>built\<close>). Its
  \<open>correct + incorrect\<close> equals the number of \<open>update\<close> calls that went into it, and the
  sum of its cells equals the sum of their weights. So \<open>correct + incorrect\<close> equals the
  sum of all cells when every weight is 1, the default.
\<close>

theorem built_counts_and_cells:
  assumes "built h c calls"
  shows "correct c + incorrect c = int (length calls) \<and>
         sum_cells h c = sum_list (map weight calls) \<and>
         ((\<forall>call \<in> set calls. weight call = 1) \<longrightarrow> correct c + incorrect c = sum_cells h c)"
  using built_invariant [OF assms] by (simp add: sum_list_weights_one)


theorem built_counts_and_cells_witness:
  "built [[(''A'', 2), (''B'', 1)], [(''A'', 1)], [(''B'', 1)], [(''A'', 1)], [(''A'', 1)]]
     \<lparr>matrix = [(''A'', 0), (''B'', 2), (''C'', 4)], correct = 3, incorrect = 2\<rparr>
     [(''A'', ''A'', 1), (''A'', ''B'', 1), (''A'', ''A'', 1), (''B'', ''B'', 1), (''C'', ''A'', 1)] \<and>
   map weight
     [(''A'', ''A'', 1), (''A'', ''B'', 1), (''A'', ''A'', 1), (''B'', ''B'', 1), (''C'', ''A'', 1)]
     = [1, 1, 1, 1, 1] \<and>
   correct \<lparr>matrix = [(''A'', 0), (''B'', 2), (''C'', 4)], correct = 3, incorrect = 2\<rparr> +
     incorrect \<lparr>matrix = [(''A'', 0), (''B'', 2), (''C'', 4)], correct = 3, incorrect = 2\<rparr> = 5 \<and>
   sum_cells [[(''A'', 2), (''B'', 1)], [(''A'', 1)], [(''B'', 1)], [(''A'', 1)], [(''A'', 1)]]
     \<lparr>matrix = [(''A'', 0), (''B'', 2), (''C'', 4)], correct = 3, incorrect = 2\<rparr> = 5"
proof -
  let ?a = "\<lparr>matrix = [(''A'', 0)], correct = 1, incorrect = 1\<rparr>"
  let ?h1 = "[[(''A'', 1), (''B'', 1)]]"
  let ?b = "\<lparr>matrix = [(''A'', 1)], correct = 1, incorrect = 0\<rparr>"
  let ?h2 = "[[(''A'', 1), (''B'', 1)], [(''A'', 1)]]"
  let ?r = "\<lparr>matrix = [(''A'', 0)], correct = 2, incorrect = 1\<rparr>"
  let ?h3 = "[[(''A'', 2), (''B'', 1)], [(''A'', 1)]]"
  let ?r1 = "\<lparr>matrix = [(''A'', 0), (''B'', 2)], correct = 3, incorrect = 1\<rparr>"
  let ?h4 = "[[(''A'', 2), (''B'', 1)], [(''A'', 1)], [(''B'', 1)]]"
  let ?c = "\<lparr>matrix = [(''C'', 3)], correct = 0, incorrect = 1\<rparr>"
  let ?h5 = "[[(''A'', 2), (''B'', 1)], [(''A'', 1)], [(''B'', 1)], [(''A'', 1)]]"
  let ?r2 = "\<lparr>matrix = [(''A'', 0), (''B'', 2), (''C'', 4)], correct = 3, incorrect = 2\<rparr>"
  let ?h6 = "[[(''A'', 2), (''B'', 1)], [(''A'', 1)], [(''B'', 1)], [(''A'', 1)], [(''A'', 1)]]"
  have run_a: "Confusion_updates [(''A'', ''A'', 1), (''A'', ''B'', 1)] Confusion_init [] = (?a, ?h1)"
    by (simp add: Confusion_eval)
  have run_b: "Confusion_updates [(''A'', ''A'', 1)] Confusion_init ?h1 = (?b, ?h2)"
    by (simp add: Confusion_eval)
  have add_ab: "Confusion_add ?a (ConfusionObj ?b :: (string, unit) accumulator) ?h2 = (Inr ?r, ?h3)"
    by (simp add: Confusion_eval)
  have up_r: "Confusion_update ?r ''B'' ''B'' 1 ?h3 = (?r1, ?h4)"
    by (simp add: Confusion_eval)
  have run_c: "Confusion_updates [(''C'', ''A'', 1)] Confusion_init ?h4 = (?c, ?h5)"
    by (simp add: Confusion_eval)
  have add_rc: "Confusion_add ?r1 (ConfusionObj ?c :: (string, unit) accumulator) ?h5 = (Inr ?r2, ?h6)"
    by (simp add: Confusion_eval)
  have a: "built ?h1 ?a ([] @ [(''A'', ''A'', 1), (''A'', ''B'', 1)])"
    using built_fresh run_a by (rule built_updates)
  then have a': "built ?h1 ?a [(''A'', ''A'', 1), (''A'', ''B'', 1)]" by simp
  note ab = built_apart [OF a' run_b]
  have r: "built ?h3 ?r ([(''A'', ''A'', 1), (''A'', ''B'', 1)] @ [(''A'', ''A'', 1)])"
  proof (rule built_merge [of ?h2 ?a _ ?b])
    show "built ?h2 ?a [(''A'', ''A'', 1), (''A'', ''B'', 1)]" using ab by simp
    show "built ?h2 ?b [(''A'', ''A'', 1)]" using ab by simp
    show "addrs (matrix ?a) \<inter> addrs (matrix ?b) = {}" using ab by simp
    show "Confusion_add ?a (ConfusionObj ?b :: (string, unit) accumulator) ?h2 = (Inr ?r, ?h3)"
      by (rule add_ab)
  qed
  have r1: "built ?h4 ?r1 (([(''A'', ''A'', 1), (''A'', ''B'', 1)] @ [(''A'', ''A'', 1)]) @ [(''B'', ''B'', 1)])"
    using r up_r by (rule built_update)
  note rc = built_apart [OF r1 run_c]
  have r2: "built ?h6 ?r2
      ((([(''A'', ''A'', 1), (''A'', ''B'', 1)] @ [(''A'', ''A'', 1)]) @ [(''B'', ''B'', 1)]) @
        [(''C'', ''A'', 1)])"
  proof (rule built_merge [of ?h5 ?r1 _ ?c])
    show "built ?h5 ?r1
        (([(''A'', ''A'', 1), (''A'', ''B'', 1)] @ [(''A'', ''A'', 1)]) @ [(''B'', ''B'', 1)])"
      using rc by simp
    show "built ?h5 ?c [(''C'', ''A'', 1)]" using rc by simp
    show "addrs (matrix ?r1) \<inter> addrs (matrix ?c) = {}" using rc by simp
    show "Confusion_add ?r1 (ConfusionObj ?c :: (string, unit) accumulator) ?h5 = (Inr ?r2, ?h6)"
      by (rule add_rc)
  qed
  then have built: "built ?h6 ?r2
      [(''A'', ''A'', 1), (''A'', ''B'', 1), (''A'', ''A'', 1), (''B'', ''B'', 1), (''C'', ''A'', 1)]"
    by simp
  show ?thesis
    using built built_counts_and_cells [OF built]
    by (simp add: weight_def)
qed


section \<open>Cohen's Kappa under perfect agreement\<close>

lemma squares_le_square:
  fixes xs :: "real list"
  assumes "\<forall>x \<in> set xs. 0 < x"
  shows "0 \<le> sum_list xs \<and> (\<Sum>x\<leftarrow>xs. x * x) \<le> sum_list xs * sum_list xs"
  using assms
proof (induction xs)
  case Nil
  then show ?case by simp
next
  case (Cons x xs)
  then have IH: "0 \<le> sum_list xs" "(\<Sum>x\<leftarrow>xs. x * x) \<le> sum_list xs * sum_list xs"
    and x: "0 < x" by simp_all
  have "0 \<le> 2 * x * sum_list xs" using x IH(1) by simp
  then have "(\<Sum>y\<leftarrow>x # xs. y * y) \<le> x * x + 2 * x * sum_list xs + sum_list xs * sum_list xs"
    using IH(2) by simp
  also have "\<dots> = sum_list (x # xs) * sum_list (x # xs)"
    by (simp add: algebra_simps)
  finally show ?case using x IH(1) by simp
qed

lemma squares_less_square:
  fixes xs :: "real list"
  assumes "\<forall>x \<in> set xs. 0 < x" and "2 \<le> length xs"
  shows "(\<Sum>x\<leftarrow>xs. x * x) < sum_list xs * sum_list xs"
proof -
  obtain x y ys where xs: "xs = x # y # ys"
    using assms(2) by (cases xs; cases "tl xs") auto
  have pos: "0 < x" "0 < y" "\<forall>z \<in> set (y # ys). 0 < z"
    using assms(1) by (simp_all add: xs)
  note rest = squares_le_square [OF pos(3)]
  have "0 < sum_list (y # ys)"
    using pos(2) squares_le_square [of ys] pos(3) by simp
  then have "0 < 2 * x * sum_list (y # ys)" using pos(1) by simp
  then have "(\<Sum>z\<leftarrow>xs. z * z) < x * x + 2 * x * sum_list (y # ys) + sum_list (y # ys) * sum_list (y # ys)"
    using rest unfolding xs by simp
  also have "\<dots> = sum_list xs * sum_list xs"
    unfolding xs by (simp add: algebra_simps)
  finally show ?thesis .
qed


lemma Kappa_loop_value:
  "Z \<noteq> 0 \<Longrightarrow>
   Kappa_loop m Z h (Fin p) =
     Inr (Fin (p + (\<Sum>(t, a)\<leftarrow>m. (of_int (sum_values (h ! a)) / of_int Z) *
                                    (of_int (sum_values (h ! a)) / of_int Z))))"
proof (induction m arbitrary: p)
  case Nil
  then show ?case by simp
next
  case (Cons q m)
  obtain t a where q: "q = (t, a)" by (cases q)
  show ?case
    using Cons.prems Cons.IH [OF Cons.prems]
    by (simp add: q int_truediv_def err_bind_def add.assoc)
qed

lemma sum_list_scaled_squares:
  fixes f :: "'a \<Rightarrow> real"
  shows "(\<Sum>x\<leftarrow>xs. (f x / z) * (f x / z)) = (\<Sum>x\<leftarrow>xs. f x * f x) / (z * z)"
  by (induction xs) (simp_all add: add_divide_distrib)

lemma Confusion_batch_update_updates:
  "Confusion_batch_update self truths guesses h =
   Confusion_updates (map (\<lambda>(t, g). (t, g, 1)) (zip truths guesses)) self h"
proof -
  have "fold (\<lambda>(truth, guess) (s, h'). Confusion_update s truth guess 1 h') obs (self, h) =
        Confusion_updates (map (\<lambda>(t, g). (t, g, 1)) obs) self h" for obs
  proof (induction obs arbitrary: self h)
    case Nil
    then show ?case by simp
  next
    case (Cons ob obs)
    obtain t g where ob: "ob = (t, g)" by (cases ob)
    obtain c1 h1 where up: "Confusion_update self t g 1 h = (c1, h1)"
      by (cases "Confusion_update self t g 1 h")
    show ?case using Cons.IH [of c1 h1] by (simp add: ob up)
  qed
  then show ?thesis by (simp add: Confusion_batch_update_def)
qed

text \<open>One \<open>update\<close> with a positive weight keeps every row sum positive.\<close>

lemma Confusion_update_positive:
  assumes ok: "rows_ok h (matrix c)"
    and pos: "\<forall>a \<in> addrs (matrix c). 0 < sum_values (h ! a)"
    and k: "0 < k"
    and up: "Confusion_update c t g k h = (c', h')"
  shows "(\<forall>a \<in> addrs (matrix c'). 0 < sum_values (h' ! a)) \<and>
         fst ` set (matrix c') = insert t (fst ` set (matrix c)) \<and>
         (t = g \<longrightarrow> incorrect c' = incorrect c)"
proof (cases "map_of (matrix c) t")
  case None
  then have m': "matrix c' = matrix c @ [(t, length h)]"
    and h': "h' = (h @ [[]])[length h := guess_count_iadd g k []]"
    and inc: "t = g \<longrightarrow> incorrect c' = incorrect c"
    using up by (auto simp: Confusion_update_def matrix_getitem_def Let_def split: if_splits)
  have lt: "\<forall>a \<in> addrs (matrix c). a < length h"
    using ok by (simp add: rows_ok_def)
  have "\<forall>a \<in> addrs (matrix c'). 0 < sum_values (h' ! a)"
  proof
    fix a assume "a \<in> addrs (matrix c')"
    then consider "a \<in> addrs (matrix c)" | "a = length h"
      by (auto simp: m' addrs_append addrs_Cons addrs_def)
    then show "0 < sum_values (h' ! a)"
    proof cases
      case 1
      with lt have "a < length h" by blast
      then have "h' ! a = h ! a" by (simp add: h' nth_append)
      with pos 1 show ?thesis by simp
    next
      case 2
      then show ?thesis using k by (simp add: h' sum_values_def)
    qed
  qed
  then show ?thesis using inc by (auto simp: m')
next
  case (Some b)
  then have m': "matrix c' = matrix c"
    and h': "h' = h[b := guess_count_iadd g k (h ! b)]"
    and inc: "t = g \<longrightarrow> incorrect c' = incorrect c"
    using up by (auto simp: Confusion_update_def matrix_getitem_def Let_def split: if_splits)
  have b: "b \<in> addrs (matrix c)" using Some by (rule map_of_addrs)
  then have b_lt: "b < length h" using ok by (auto simp: rows_ok_def)
  have t: "t \<in> fst ` set (matrix c)"
    using Some by (metis map_of_eq_None_iff option.distinct(1))
  have "\<forall>a \<in> addrs (matrix c'). 0 < sum_values (h' ! a)"
  proof
    fix a assume a: "a \<in> addrs (matrix c')"
    show "0 < sum_values (h' ! a)"
    proof (cases "a = b")
      case True
      then show ?thesis using pos b b_lt k by (simp add: h' sum_values_iadd add_pos_pos)
    next
      case False
      then show ?thesis using pos a by (simp add: h' m')
    qed
  qed
  then show ?thesis using inc t by (auto simp: m')
qed

lemma Confusion_updates_agreement:
  assumes "rows_ok h (matrix c)"
    and "\<forall>a \<in> addrs (matrix c). 0 < sum_values (h ! a)"
    and "Confusion_updates (map (\<lambda>t. (t, t, 1)) ts) c h = (c', h')"
  shows "(\<forall>a \<in> addrs (matrix c'). 0 < sum_values (h' ! a)) \<and>
         fst ` set (matrix c') = set ts \<union> fst ` set (matrix c) \<and>
         incorrect c' = incorrect c"
  using assms
proof (induction ts arbitrary: c h)
  case Nil
  then show ?case by simp
next
  case (Cons t ts)
  obtain c1 h1 where up: "Confusion_update c t t 1 h = (c1, h1)"
    by (cases "Confusion_update c t t 1 h")
  have rest: "Confusion_updates (map (\<lambda>t. (t, t, 1)) ts) c1 h1 = (c', h')"
    using Cons.prems(3) by (simp add: up)
  note ok1 = Confusion_update_step(1) [OF Cons.prems(1) up]
  have step: "(\<forall>a \<in> addrs (matrix c1). 0 < sum_values (h1 ! a)) \<and>
         fst ` set (matrix c1) = insert t (fst ` set (matrix c)) \<and>
         (t = t \<longrightarrow> incorrect c1 = incorrect c)"
    by (rule Confusion_update_positive [OF Cons.prems(1,2) _ up]) simp
  have "(\<forall>a \<in> addrs (matrix c'). 0 < sum_values (h' ! a)) \<and>
         fst ` set (matrix c') = set ts \<union> fst ` set (matrix c1) \<and>
         incorrect c' = incorrect c1"
    using step by (intro Cons.IH [OF ok1 _ rest]) blast
  with step show ?case by auto
qed


lemma Kappa_Z_sum_cells: "Kappa_Z c h = sum_cells h c"
  by (simp add: Kappa_Z_def sum_cells_def)

lemma two_keys_two_rows:
  assumes "t1 \<in> fst ` set m" and "t2 \<in> fst ` set m" and "t1 \<noteq> t2"
  shows "2 \<le> length m"
proof -
  have "{t1, t2} \<subseteq> set (map fst m)" using assms by simp
  then have "card {t1, t2} \<le> card (set (map fst m))"
    by (intro card_mono) simp_all
  also have "\<dots> \<le> length (map fst m)" by (rule card_length)
  finally show ?thesis using assms(3) by simp
qed

lemma rows_sum_real:
  "sum_list (map (\<lambda>(t, a). real_of_int (sum_values (h ! a))) m) = real_of_int (rows_sum h m)"
  by (induction m) (auto simp: rows_sum_def)

lemma Confusion_Kappa_agreement:
  assumes run: "Confusion_batch_update Confusion_init truths truths h0 = (c, h)"
    and t1: "t1 \<in> set truths" and t2: "t2 \<in> set truths" and neq: "t1 \<noteq> t2"
  shows "Confusion_Kappa c h = Inr (Fin 1)"
proof -
  let ?calls = "map (\<lambda>t. (t, t, 1::int)) truths"
  have calls: "map (\<lambda>(t, g). (t, g, 1::int)) (zip truths truths) = ?calls"
    by (simp add: zip_same_conv_map)
  have run': "Confusion_updates ?calls Confusion_init h0 = (c, h)"
    using run by (simp add: Confusion_batch_update_updates calls)
  have init: "\<forall>x \<in> addrs (matrix (Confusion_init :: 'a Confusion)). n \<le> x" for n
    by (simp add: Confusion_init_def addrs_def)
  have init0: "\<forall>a \<in> addrs (matrix (Confusion_init :: 'a Confusion)). 0 < sum_values (h0 ! a)"
    by (simp add: Confusion_init_def addrs_def)
  note R = Confusion_updates_run [OF rows_ok_init init order_refl run']
  note A = Confusion_updates_agreement [OF rows_ok_init init0 run']
  have weights: "sum_list (map weight ?calls) = int (length truths)"
    by (simp add: weight_def comp_def sum_list_triv)
  have n: "0 < length truths" using t1 by (cases truths) auto
  have Z: "Kappa_Z c h = int (length truths)"
    using R weights by (simp add: Kappa_Z_sum_cells sum_cells_def Confusion_init_def)
  have inc: "incorrect c = 0" and cor: "correct c = int (length truths)"
    using A R by (simp_all add: Confusion_init_def)
  have acc: "Confusion_accuracy c = Inr (Fin 1)"
    using n by (simp add: Confusion_accuracy_def int_truediv_def inc cor)
  let ?xs = "map (\<lambda>(t, a). real_of_int (sum_values (h ! a))) (matrix c)"
  have pos: "\<forall>x \<in> set ?xs. 0 < x"
    using A by (auto simp: addrs_def)
  have "fst ` set (matrix c) = set truths"
    using A by (simp add: Confusion_init_def)
  then have len: "2 \<le> length ?xs"
    using two_keys_two_rows [of t1 "matrix c" t2] t1 t2 neq by simp
  have total: "sum_list ?xs = real (length truths)"
  proof -
    have "sum_list ?xs = real_of_int (rows_sum h (matrix c))"
      by (rule rows_sum_real)
    then show ?thesis using Z by (simp add: Kappa_Z_sum_cells sum_cells_rows_sum)
  qed
  let ?Pe = "(\<Sum>x\<leftarrow>?xs. x * x) / (real (length truths) * real (length truths))"
  have "(\<Sum>x\<leftarrow>?xs. x * x) < real (length truths) * real (length truths)"
    using squares_less_square [OF pos len] by (simp add: total)
  then have Pe: "?Pe < 1" using n by simp
  have loop: "Kappa_loop (matrix c) (Kappa_Z c h) h (Fin 0) = Inr (Fin ?Pe)"
  proof -
    have "(\<Sum>(t, a)\<leftarrow>matrix c. (of_int (sum_values (h ! a)) / real (length truths)) *
                                    (of_int (sum_values (h ! a)) / real (length truths))) = ?Pe"
      using sum_list_scaled_squares [of "\<lambda>(t, a). real_of_int (sum_values (h ! a))"
          "real (length truths)" "matrix c"]
      by (simp add: case_prod_unfold comp_def)
    then show ?thesis using n by (simp add: Kappa_loop_value Z)
  qed
  define pe where "pe = ?Pe"
  have "Kappa_loop (matrix c) (Kappa_Z c h) h (Fin 0) = Inr (Fin pe)" and "pe < 1"
    using loop Pe by (simp_all add: pe_def)
  then show ?thesis
    by (simp add: Confusion_Kappa_def Let_def acc err_bind_def fsub_def)
qed


lemma BinaryConfusion_batch_agreement:
  "hit (batch_update BinaryConfusion_update s vs vs) = hit s \<and>
   tp (batch_update BinaryConfusion_update s vs vs) = tp s + int (length (filter py_bool vs)) \<and>
   tn (batch_update BinaryConfusion_update s vs vs) =
     tn s + int (length (filter (\<lambda>v. \<not> py_bool v) vs)) \<and>
   fp (batch_update BinaryConfusion_update s vs vs) = fp s \<and>
   fn (batch_update BinaryConfusion_update s vs vs) = fn s"
proof (induction vs arbitrary: s)
  case Nil
  then show ?case by (simp add: batch_update_def)
next
  case (Cons v vs)
  have step: "batch_update BinaryConfusion_update s (v # vs) (v # vs) =
              batch_update BinaryConfusion_update (BinaryConfusion_update s v v) vs vs"
    by (simp add: batch_update_def)
  have one: "hit (BinaryConfusion_update s v v) = hit s"
    "tp (BinaryConfusion_update s v v) = tp s + (if py_bool v then 1 else 0)"
    "tn (BinaryConfusion_update s v v) = tn s + (if py_bool v then 0 else 1)"
    "fp (BinaryConfusion_update s v v) = fp s"
    "fn (BinaryConfusion_update s v v) = fn s"
    by (simp_all add: BinaryConfusion_update_def Let_def)
  show ?case
    unfolding step using Cons.IH [of "BinaryConfusion_update s v v"]
    by (simp add: one)
qed

lemma BinaryConfusion_Kappa_agreement:
  assumes "0 < tp b" and "0 < tn b" and "fp b = 0" and "fn b = 0"
    and "tp b + tn b \<le> sys_maxsize"
  shows "BinaryConfusion_Kappa b = Inr (Fin 1)"
proof -
  define n where "n = tp b + tn b"
  have n: "0 < n" "BinaryConfusion_len b = n" "py_len n = Inr n"
    using assms by (simp_all add: n_def BinaryConfusion_len_def py_len_def)
  define x where "x = real_of_int (tp b) / real_of_int n"
  have x: "0 < x" "x < 1"
    using assms(1,2) n(1) by (simp_all add: x_def n_def)
  have sum: "tp b + tn b = n" by (simp add: n_def)
  have n0: "n \<noteq> 0" using n(1) by simp
  have acc: "BinaryConfusion_accuracy b = Inr (Fin 1)"
    by (simp add: BinaryConfusion_accuracy_def n n0 err_bind_def sum
        except_ZeroDivisionError_int_truediv)
  have "0 < 2 * x * (1 - x)" using x by simp
  moreover have "x * x + (1 - x) * (1 - x) = 1 - 2 * x * (1 - x)"
    by (simp add: algebra_simps)
  ultimately have "x * x + (1 - x) * (1 - x) \<noteq> 1"
    by linarith
  then show ?thesis
    by (simp add: BinaryConfusion_Kappa_def n n0 err_bind_def int_truediv_def assms(3,4) acc
        fsub_def Let_def flip: x_def)
qed

lemma Confusion_Kappa_one_label:
  assumes run: "Confusion_batch_update Confusion_init truths truths h0 = (c, h)"
    and one: "set truths = {t}"
  shows "Confusion_Kappa c h = Inl ZeroDivisionError"
proof -
  let ?calls = "map (\<lambda>t. (t, t, 1::int)) truths"
  have calls: "map (\<lambda>(t, g). (t, g, 1::int)) (zip truths truths) = ?calls"
    by (simp add: zip_same_conv_map)
  have run': "Confusion_updates ?calls Confusion_init h0 = (c, h)"
    using run by (simp add: Confusion_batch_update_updates calls)
  have init: "\<forall>x \<in> addrs (matrix (Confusion_init :: 'a Confusion)). n \<le> x" for n
    by (simp add: Confusion_init_def addrs_def)
  have init0: "\<forall>a \<in> addrs (matrix (Confusion_init :: 'a Confusion)). 0 < sum_values (h0 ! a)"
    by (simp add: Confusion_init_def addrs_def)
  note R = Confusion_updates_run [OF rows_ok_init init order_refl run']
  note A = Confusion_updates_agreement [OF rows_ok_init init0 run']
  have weights: "sum_list (map weight ?calls) = int (length truths)"
    by (simp add: weight_def comp_def sum_list_triv)
  have n: "0 < length truths" using one by (cases truths) auto
  have Z: "Kappa_Z c h = int (length truths)"
    using R weights by (simp add: Kappa_Z_sum_cells sum_cells_def Confusion_init_def)
  have inc: "incorrect c = 0" and cor: "correct c = int (length truths)"
    using A R by (simp_all add: Confusion_init_def)
  have acc: "Confusion_accuracy c = Inr (Fin 1)"
    using n by (simp add: Confusion_accuracy_def int_truediv_def inc cor)
  have keys: "set (map fst (matrix c)) = {t}" "distinct (map fst (matrix c))"
    using A R one by (simp_all add: Confusion_init_def rows_ok_def)
  then have "length (map fst (matrix c)) = 1"
    by (metis card.empty card_insert_disjoint distinct_card empty_iff finite.emptyI One_nat_def)
  then obtain a where m: "matrix c = [(t, a)]"
    using keys(1) by (cases "matrix c") auto
  have row: "sum_values (h ! a) = int (length truths)"
    using Z by (simp add: Kappa_Z_def m)
  show ?thesis
    using n by (simp add: Confusion_Kappa_def Let_def Z m row int_truediv_def err_bind_def acc fsub_def)
qed


lemma BinaryConfusion_Kappa_one_label:
  assumes "fp b = 0" and "fn b = 0" and "0 < tp b + tn b" and "tp b = 0 \<or> tn b = 0"
    and "tp b + tn b \<le> sys_maxsize"
  shows "BinaryConfusion_Kappa b = Inl ZeroDivisionError"
proof -
  define n where "n = tp b + tn b"
  have n: "BinaryConfusion_len b = n" "py_len n = Inr n" "n \<noteq> 0"
    using assms by (simp_all add: n_def BinaryConfusion_len_def py_len_def)
  have sum: "tp b + tn b = n" by (simp add: n_def)
  have acc: "BinaryConfusion_accuracy b = Inr (Fin 1)"
    by (simp add: BinaryConfusion_accuracy_def n err_bind_def sum
        except_ZeroDivisionError_int_truediv)
  from assms(4) show ?thesis
  proof
    assume "tp b = 0"
    then show ?thesis
      by (simp add: BinaryConfusion_Kappa_def n err_bind_def int_truediv_def assms(1,2) acc
          fsub_def Let_def)
  next
    assume "tn b = 0"
    then have "tp b = n" by (simp add: n_def)
    then show ?thesis
      by (simp add: BinaryConfusion_Kappa_def n err_bind_def int_truediv_def assms(1,2) acc
          fsub_def Let_def)
  qed
qed

text \<open>
  With at most \<open>2 ^ 53\<close> observations, the quotient of a row that is not the only one
  lies between \<open>2 ^ -53\<close> and \<open>1 - 2 ^ -53\<close>, two numbers a float holds exactly.
\<close>

lemma int_truediv_below_one:
  assumes "0 < r" and "r < n" and "n \<le> 2 ^ 53"
  shows "\<exists>q. int_truediv r n = Inr (Fin q) \<and> 1 / 2 ^ 53 \<le> q \<and> q \<le> 1 - 1 / 2 ^ 53"
proof -
  have n: "0 < n" using assms by simp
  have rn: "real_of_int n \<le> 2 ^ 53" using assms(3) by (metis of_int_le_iff of_int_numeral of_int_power)
  have inv: "1 / 2 ^ 53 \<le> 1 / real_of_int n"
    using n rn by (intro divide_left_mono) simp_all
  have "real_of_int r \<le> real_of_int n - 1" using assms(2) by linarith
  then have "real_of_int r / real_of_int n \<le> (real_of_int n - 1) / real_of_int n"
    using n by (intro divide_right_mono) simp_all
  also have "\<dots> = 1 - 1 / real_of_int n"
    using n by (simp add: diff_divide_distrib)
  finally have up: "real_of_int r / real_of_int n \<le> 1 - 1 / 2 ^ 53"
    using inv by linarith
  have "1 \<le> real_of_int r" using assms(1) by linarith
  then have "1 / real_of_int n \<le> real_of_int r / real_of_int n"
    using n by (intro divide_right_mono) simp_all
  with inv have low: "1 / 2 ^ 53 \<le> real_of_int r / real_of_int n" by linarith
  show ?thesis
    using n up low by (simp add: int_truediv_def)
qed

text \<open>
  C9, as the claim states it: after any non-empty sequence of observations with
  \<open>truth = guess\<close>, \<open>Kappa\<close> is exactly 1. With one label only (\<open>'A'\<close> twice, or \<open>True\<close>
  twice for the binary matrix) the chance agreement \<open>Pe\<close> is 1, and \<open>Kappa\<close> divides by
  \<open>1. - Pe = 0.0\<close>: it raises \<open>ZeroDivisionError\<close>.
\<close>

theorem Kappa_one_label_raises:
  "Confusion_batch_update Confusion_init [''A'', ''A''] [''A'', ''A''] [] =
     (\<lparr>matrix = [(''A'', 0)], correct = 2, incorrect = 0\<rparr>, [[(''A'', 2)]]) \<and>
   Confusion_Kappa \<lparr>matrix = [(''A'', 0)], correct = 2, incorrect = 0\<rparr> [[(''A'', 2)]]
     = Inl ZeroDivisionError \<and>
   BinaryConfusion_Kappa
     (batch_update BinaryConfusion_update (BinaryConfusion_init True 0 0 0 0)
        [VBool True, VBool True] [VBool True, VBool True]) = Inl ZeroDivisionError"
  by (simp add: Confusion_batch_update_def Confusion_eval Confusion_Kappa_def Kappa_Z_def
      Confusion_accuracy_def int_truediv_def err_bind_def fsub_def Let_def
      batch_update_def BinaryConfusion_update_def BinaryConfusion_init_def
      BinaryConfusion_Kappa_def BinaryConfusion_len_def py_len_def sys_maxsize_def
      BinaryConfusion_accuracy_def except_ZeroDivisionError_def)

text \<open>
  C9, amended. After a sequence of at most \<open>2 ^ 53\<close> observations with
  \<open>truth = guess\<close> on a fresh matrix, \<open>Confusion.Kappa\<close> is 1 when two distinct labels
  were observed, and \<open>BinaryConfusion.Kappa\<close> is 1 when a true and a false value were
  both observed. After such a sequence of any length, \<open>Confusion.Kappa\<close> raises
  \<open>ZeroDivisionError\<close> when one label only was observed, and so does
  \<open>BinaryConfusion.Kappa\<close> when only true or only false values were (the length being
  within \<open>sys.maxsize\<close>). The guesses are the truths: \<open>batch_update\<close> pairs the
  sequence with itself.

  The bound is there for the code, not for the proof: arithmetic is exact in this model,
  where \<open>Pe < 1\<close> for two labels whatever the counts. In the code the quotients are
  rounded: up to \<open>2 ^ 53\<close> observations the largest quotient a row can have,
  \<open>(n - 1) / n\<close>, is at most \<open>1 - 2 ^ -53\<close> (\<open>int_truediv_below_one\<close>) and rounds to
  a float below \<open>1.0\<close>; from about \<open>2 ^ 54\<close> observations it rounds to \<open>1.0\<close>, \<open>Pe\<close> is
  \<open>1.0\<close> and \<open>Kappa\<close> raises \<open>ZeroDivisionError\<close>.
\<close>

theorem Kappa_perfect_agreement:
  fixes truths :: "'l list" and vs :: "pyval list"
  shows
  "(Confusion_batch_update Confusion_init truths truths h0 = (c, h) \<and>
      t1 \<in> set truths \<and> t2 \<in> set truths \<and> t1 \<noteq> t2 \<and> length truths \<le> 2 ^ 53 \<longrightarrow>
      Confusion_Kappa c h = Inr (Fin 1)) \<and>
   (Confusion_batch_update Confusion_init truths truths h0 = (c, h) \<and> set truths = {t1} \<longrightarrow>
      Confusion_Kappa c h = Inl ZeroDivisionError) \<and>
   (v1 \<in> set vs \<and> py_bool v1 \<and> v2 \<in> set vs \<and> \<not> py_bool v2 \<and>
      length vs \<le> 2 ^ 53 \<longrightarrow>
      BinaryConfusion_Kappa
        (batch_update BinaryConfusion_update (BinaryConfusion_init hit_label 0 0 0 0) vs vs)
        = Inr (Fin 1)) \<and>
   (vs \<noteq> [] \<and> (filter py_bool vs = [] \<or> filter (\<lambda>v. \<not> py_bool v) vs = []) \<and>
      int (length vs) \<le> sys_maxsize \<longrightarrow>
      BinaryConfusion_Kappa
        (batch_update BinaryConfusion_update (BinaryConfusion_init hit_label 0 0 0 0) vs vs)
        = Inl ZeroDivisionError)"
proof (intro conjI impI)
  assume "Confusion_batch_update Confusion_init truths truths h0 = (c, h) \<and>
      t1 \<in> set truths \<and> t2 \<in> set truths \<and> t1 \<noteq> t2 \<and> length truths \<le> 2 ^ 53"
  then show "Confusion_Kappa c h = Inr (Fin 1)"
    using Confusion_Kappa_agreement [of truths h0 c h t1 t2] by simp
next
  assume "Confusion_batch_update Confusion_init truths truths h0 = (c, h) \<and> set truths = {t1}"
  then show "Confusion_Kappa c h = Inl ZeroDivisionError"
    using Confusion_Kappa_one_label [of truths h0 c h t1] by simp
next
  let ?b = "batch_update BinaryConfusion_update (BinaryConfusion_init hit_label 0 0 0 0) vs vs"
  assume a: "v1 \<in> set vs \<and> py_bool v1 \<and> v2 \<in> set vs \<and> \<not> py_bool v2 \<and>
      length vs \<le> 2 ^ 53"
  then have "int (length vs) \<le> int (2 ^ 53)"
    by (simp only: of_nat_le_iff)
  then have size: "int (length vs) \<le> sys_maxsize"
    by (simp add: sys_maxsize_def)
  note B = BinaryConfusion_batch_agreement [of "BinaryConfusion_init hit_label 0 0 0 0" vs]
  have "filter py_bool vs \<noteq> []" "filter (\<lambda>v. \<not> py_bool v) vs \<noteq> []"
    using a by (auto simp: filter_empty_conv)
  then have pos: "0 < tp ?b" "0 < tn ?b"
    using B by (simp_all add: BinaryConfusion_init_def)
  have zero: "fp ?b = 0" "fn ?b = 0"
    using B by (simp_all add: BinaryConfusion_init_def)
  have "length (filter py_bool vs) + length (filter (\<lambda>v. \<not> py_bool v) vs) = length vs"
    by (rule sum_length_filter_compl)
  then have "tp ?b + tn ?b = int (length vs)"
    using B by (simp add: BinaryConfusion_init_def)
  then have "tp ?b + tn ?b \<le> sys_maxsize" using size by simp
  with pos zero show "BinaryConfusion_Kappa ?b = Inr (Fin 1)"
    by (intro BinaryConfusion_Kappa_agreement)
next
  let ?b = "batch_update BinaryConfusion_update (BinaryConfusion_init hit_label 0 0 0 0) vs vs"
  assume a: "vs \<noteq> [] \<and> (filter py_bool vs = [] \<or> filter (\<lambda>v. \<not> py_bool v) vs = []) \<and>
      int (length vs) \<le> sys_maxsize"
  note B = BinaryConfusion_batch_agreement [of "BinaryConfusion_init hit_label 0 0 0 0" vs]
  have zero: "fp ?b = 0" "fn ?b = 0"
    using B by (simp_all add: BinaryConfusion_init_def)
  have "length (filter py_bool vs) + length (filter (\<lambda>v. \<not> py_bool v) vs) = length vs"
    by (rule sum_length_filter_compl)
  then have total: "tp ?b + tn ?b = int (length vs)"
    using B by (simp add: BinaryConfusion_init_def)
  have one: "tp ?b = 0 \<or> tn ?b = 0"
    using a B by (auto simp: BinaryConfusion_init_def)
  have "0 < tp ?b + tn ?b" "tp ?b + tn ?b \<le> sys_maxsize"
    using a total by simp_all
  with zero one show "BinaryConfusion_Kappa ?b = Inl ZeroDivisionError"
    by (intro BinaryConfusion_Kappa_one_label)
qed

theorem Kappa_perfect_agreement_witness:
  "Confusion_batch_update Confusion_init [''A'', ''B''] [''A'', ''B''] [] =
     (\<lparr>matrix = [(''A'', 0), (''B'', 1)], correct = 2, incorrect = 0\<rparr>,
      [[(''A'', 1)], [(''B'', 1)]]) \<and>
   ''A'' \<in> set [''A'', ''B''] \<and> ''B'' \<in> set [''A'', ''B''] \<and> ''A'' \<noteq> ''B'' \<and>
   length [''A'', ''B''] \<le> 2 ^ 53 \<and>
   Confusion_Kappa \<lparr>matrix = [(''A'', 0), (''B'', 1)], correct = 2, incorrect = 0\<rparr>
     [[(''A'', 1)], [(''B'', 1)]] = Inr (Fin 1) \<and>
   VBool True \<in> set [VBool True, VBool False] \<and> py_bool (VBool True) \<and>
   VBool False \<in> set [VBool True, VBool False] \<and> \<not> py_bool (VBool False) \<and>
   length [VBool True, VBool False] \<le> 2 ^ 53 \<and>
   BinaryConfusion_Kappa
     (batch_update BinaryConfusion_update (BinaryConfusion_init True 0 0 0 0)
        [VBool True, VBool False] [VBool True, VBool False]) = Inr (Fin 1) \<and>
   Confusion_batch_update Confusion_init [''A'', ''A'', ''A''] [''A'', ''A'', ''A''] [] =
     (\<lparr>matrix = [(''A'', 0)], correct = 3, incorrect = 0\<rparr>, [[(''A'', 3)]]) \<and>
   set [''A'', ''A'', ''A''] = {''A''} \<and>
   Confusion_Kappa \<lparr>matrix = [(''A'', 0)], correct = 3, incorrect = 0\<rparr> [[(''A'', 3)]]
     = Inl ZeroDivisionError \<and>
   [VBool False, VBool False, VBool False] \<noteq> [] \<and>
   filter py_bool [VBool False, VBool False, VBool False] = [] \<and>
   int (length [VBool False, VBool False, VBool False]) \<le> sys_maxsize \<and>
   BinaryConfusion_Kappa
     (batch_update BinaryConfusion_update (BinaryConfusion_init True 0 0 0 0)
        [VBool False, VBool False, VBool False] [VBool False, VBool False, VBool False])
     = Inl ZeroDivisionError"
proof -
  have run1: "Confusion_batch_update Confusion_init [''A'', ''A'', ''A''] [''A'', ''A'', ''A''] [] =
     (\<lparr>matrix = [(''A'', 0)], correct = 3, incorrect = 0\<rparr>, [[(''A'', 3)]])"
    by (simp add: Confusion_batch_update_def Confusion_eval)
  have run: "Confusion_batch_update Confusion_init [''A'', ''B''] [''A'', ''B''] [] =
     (\<lparr>matrix = [(''A'', 0), (''B'', 1)], correct = 2, incorrect = 0\<rparr>,
      [[(''A'', 1)], [(''B'', 1)]])"
    by (simp add: Confusion_batch_update_def Confusion_eval)
  have size: "length [VBool True, VBool False] \<le> 2 ^ 53" "length [''A'', ''B''] \<le> 2 ^ 53"
    by simp_all
  show ?thesis
    using run run1 size
      Kappa_perfect_agreement [of "[''A'', ''B'']" "[]"
        "\<lparr>matrix = [(''A'', 0), (''B'', 1)], correct = 2, incorrect = 0\<rparr>"
        "[[(''A'', 1)], [(''B'', 1)]]" "''A''" "''B''" "VBool True"
        "[VBool True, VBool False]" "VBool False" True]
      Kappa_perfect_agreement [of "[''A'', ''A'', ''A'']" "[]"
        "\<lparr>matrix = [(''A'', 0)], correct = 3, incorrect = 0\<rparr>"
        "[[(''A'', 3)]]" "''A''" "''B''" "VBool True"
        "[VBool False, VBool False, VBool False]" "VBool False" True]
    by (simp add: sys_maxsize_def)
qed

end
